theory Spec2Isabelle
  imports Complex_Main "HOL-Library.Word"
begin

unbundle bit_operations_syntax

text \<open>
  The client of a collaboration provider over a QUIC transport, embedded from its four
  source files: the framing codec (\<^verbatim>\<open>encoding.ts\<close>), the connection manager
  (\<^verbatim>\<open>connection.ts\<close>), the awareness pipeline (\<^verbatim>\<open>awareness-manager.ts\<close>) and the provider
  (\<^verbatim>\<open>provider.ts\<close>). Pure functions are functions on byte lists. The two classes with
  state and the part of the browser they act on are one record, \<open>world\<close>; a method takes
  the record and returns it updated, and every effect on the outside (a write, a timer, a
  report through a callback, an emitted event) is appended to its log. An \<^verbatim>\<open>async\<close> method
  runs to its end in one step, with the answer of the browser given as an argument.
\<close>

section \<open>encoding.ts: the framing codec\<close>

text \<open>
  A \<^verbatim>\<open>Uint8Array\<close> is a list of bytes. Storing a number into one keeps its low eight
  bits, which is \<open>u8\<close>. The codec's \<^verbatim>\<open>throw new Error(...)\<close> statements are the \<open>Inl\<close>
  results; the constructors are named after the error kinds and carry what the message
  prints.
\<close>

type_synonym byte = "8 word"

datatype error =
    FrameTooLarge nat      \<comment> \<open>\<^verbatim>\<open>Message too large: ${length} bytes (max 65535)\<close>\<close>
  | DatagramTooShort       \<comment> \<open>\<^verbatim>\<open>Invalid awareness datagram: too short\<close>\<close>
  | Destroyed              \<comment> \<open>\<^verbatim>\<open>Connection manager has been destroyed\<close>\<close>
  | Unsupported            \<comment> \<open>\<^verbatim>\<open>WebTransport is not supported in this browser\<close>\<close>
  | Transport string       \<comment> \<open>a rejection or exception of the transport, with its message\<close>
  | DecodeError            \<comment> \<open>an exception thrown by a decoder of \<^verbatim>\<open>yjs\<close> or \<^verbatim>\<open>y-protocols\<close>\<close>

definition u8 :: "nat \<Rightarrow> byte" where
  "u8 n = of_nat n"

text \<open>\<^verbatim>\<open>buffer.slice(start, stop)\<close> for \<open>start \<le> stop\<close>; both ends are clamped to the length.\<close>

definition slice :: "byte list \<Rightarrow> nat \<Rightarrow> nat \<Rightarrow> byte list" where
  "slice buffer start stop = take (stop - start) (drop start buffer)"

definition frameMessage :: "byte list \<Rightarrow> error + byte list" where
  "frameMessage data =
     (let length = length data in
      if length > 65535 then Inl (FrameTooLarge length)
      else Inr (u8 (drop_bit 8 length AND 255) # u8 (length AND 255) # data))"

text \<open>
  The \<^verbatim>\<open>while (offset + 2 <= buffer.byteLength)\<close> loop of \<^verbatim>\<open>readFramedMessages\<close>, with its
  \<^verbatim>\<open>break\<close> on an incomplete message. It returns the messages and the final offset.
\<close>

function readFramedLoop :: "byte list \<Rightarrow> nat \<Rightarrow> byte list list \<Rightarrow> byte list list \<times> nat" where
  "readFramedLoop buffer offset messages =
     (if offset + 2 \<le> length buffer then
        (let length = push_bit 8 (unat (buffer ! offset)) OR unat (buffer ! (offset + 1)) in
         if offset + 2 + length > List.length buffer then (messages, offset)
         else readFramedLoop buffer (offset + 2 + length)
                (messages @ [slice buffer (offset + 2) (offset + 2 + length)]))
      else (messages, offset))"
  by pat_completeness auto
termination
  by (relation "measure (\<lambda>(buffer, offset, messages). length buffer - offset)") auto

declare readFramedLoop.simps [simp del]

definition readFramedMessages :: "byte list \<Rightarrow> byte list list \<times> byte list" where
  "readFramedMessages buffer =
     (let (messages, offset) = readFramedLoop buffer 0 [] in (messages, drop offset buffer))"

definition encodeSyncStep1 :: "byte list \<Rightarrow> byte list" where
  "encodeSyncStep1 stateVector = 0x00 # stateVector"

definition encodeSyncStep2 :: "byte list \<Rightarrow> byte list" where
  "encodeSyncStep2 update = 0x01 # update"

definition encodeUpdate :: "byte list \<Rightarrow> byte list" where
  "encodeUpdate update = 0x02 # update"

definition encodeAwarenessMessage :: "byte list \<Rightarrow> byte list" where
  "encodeAwarenessMessage awarenessUpdate = 0x03 # awarenessUpdate"

text \<open>
  \<^verbatim>\<open>DataView.setUint32(byteOffset, value, false)\<close> and \<^verbatim>\<open>getUint32(byteOffset, false)\<close>: four bytes, the most
  significant first; the value is taken modulo \<open>2 ^ 32\<close>.
\<close>

definition setUint32 :: "nat \<Rightarrow> byte list" where
  "setUint32 v = [u8 (drop_bit 24 v), u8 (drop_bit 16 v), u8 (drop_bit 8 v), u8 v]"

definition getUint32 :: "byte list \<Rightarrow> nat \<Rightarrow> nat" where
  "getUint32 data byteOffset =
     ((unat (data ! byteOffset) * 256 + unat (data ! (byteOffset + 1))) * 256
        + unat (data ! (byteOffset + 2))) * 256
       + unat (data ! (byteOffset + 3))"

definition encodeAwarenessDatagram :: "nat \<Rightarrow> nat \<Rightarrow> byte list \<Rightarrow> byte list" where
  "encodeAwarenessDatagram clientId clock state = setUint32 clientId @ setUint32 clock @ state"

record datagram =
  clientId :: nat
  clock :: nat
  state :: "byte list"

definition decodeAwarenessDatagram :: "byte list \<Rightarrow> error + datagram" where
  "decodeAwarenessDatagram data =
     (if length data < 8 then Inl DatagramTooShort
      else Inr \<lparr>clientId = getUint32 data 0, clock = getUint32 data 4, state = drop 8 data\<rparr>)"

section \<open>What the code consumes from outside\<close>

text \<open>
  \<^verbatim>\<open>lib0/encoding\<close>, \<^verbatim>\<open>y-protocols\<close>, \<^verbatim>\<open>yjs\<close> and \<^verbatim>\<open>JSON\<close> are dependencies of the package, not
  files of it. The provider and the awareness pipeline reach them through the record
  \<open>yjs\<close> below, so every definition taken from the package's own files is stated for
  any behaviour of these functions. A function that can throw returns \<open>None\<close> when it does.
  \<open>'d\<close> is the state of the \<^verbatim>\<open>Y.Doc\<close>.
\<close>

datatype json =
    JNull | JBool bool | JNumber int | JString string
  | JArray "json list" | JObject "(string \<times> json) list"

text \<open>
  The \<^verbatim>\<open>Awareness\<close> object, as far as the pipeline reads it: \<^verbatim>\<open>clientID\<close>,
  \<^verbatim>\<open>getLocalState()\<close> (\<open>None\<close> for \<^verbatim>\<open>null\<close>) and the keys of \<^verbatim>\<open>getStates()\<close>.
\<close>

record Awareness =
  clientID :: nat
  localState :: "json option"
  states :: "nat list"

record 'd yjs =
  writeVarUint :: "nat \<Rightarrow> byte list"
    \<comment> \<open>\<^verbatim>\<open>encoding.writeVarUint(encoder, n)\<close>: the bytes it appends\<close>
  writeVarUint8Array :: "byte list \<Rightarrow> byte list"
    \<comment> \<open>\<^verbatim>\<open>encoding.writeVarUint8Array(encoder, bytes)\<close>: the bytes it appends\<close>
  writeSyncStep1 :: "'d \<Rightarrow> byte list"
    \<comment> \<open>\<^verbatim>\<open>syncProtocol.writeSyncStep1(encoder, doc)\<close>: the bytes it appends\<close>
  readSyncStep1 :: "byte list \<Rightarrow> 'd \<Rightarrow> byte list option"
    \<comment> \<open>\<^verbatim>\<open>syncProtocol.readSyncStep1(decoder, encoder, doc)\<close>: the bytes it appends\<close>
  readSyncStep2 :: "byte list \<Rightarrow> 'd \<Rightarrow> 'd option"
    \<comment> \<open>\<^verbatim>\<open>syncProtocol.readSyncStep2(decoder, doc, origin)\<close>: the document after it\<close>
  applyUpdate :: "byte list \<Rightarrow> 'd \<Rightarrow> 'd option"
    \<comment> \<open>\<^verbatim>\<open>Y.applyUpdate(doc, update, origin)\<close>: the document after it\<close>
  encodeAwarenessUpdate :: "Awareness \<Rightarrow> nat list \<Rightarrow> byte list option"
    \<comment> \<open>\<^verbatim>\<open>awarenessProtocol.encodeAwarenessUpdate(awareness, clients)\<close>\<close>
  jsonStringify :: "json \<Rightarrow> byte list"
    \<comment> \<open>\<^verbatim>\<open>new TextEncoder().encode(JSON.stringify(state))\<close>, the body of \<^verbatim>\<open>encodeState\<close>\<close>
  jsonParse :: "byte list \<Rightarrow> json option"
    \<comment> \<open>\<^verbatim>\<open>JSON.parse(new TextDecoder().decode(data))\<close>, the body of \<^verbatim>\<open>decodeState\<close>\<close>

text \<open>
  The two encoders of \<^verbatim>\<open>lib0/encoding\<close> that \<^verbatim>\<open>handleDocUpdate\<close> calls, as the library
  defines them: \<^verbatim>\<open>writeVarUint\<close> writes seven bits a byte, the low ones first, with the top
  bit set on every byte but the last;
  \<^verbatim>\<open>writeVarUint8Array\<close> writes the length as such a number and then the bytes.
  \<^verbatim>\<open>
  export const writeVarUint = (encoder, num) => {
    while (num > binary.BITS7) {
      write(encoder, binary.BIT8 | (binary.BITS7 & num))
      num = math.floor(num / 128)
    }
    write(encoder, binary.BITS7 & num)
  }
  export const writeVarUint8Array = (encoder, uint8Array) => {
    writeVarUint(encoder, uint8Array.byteLength)
    writeUint8Array(encoder, uint8Array)
  }
  \<close>
\<close>

function lib0_writeVarUint :: "nat \<Rightarrow> byte list" where
  "lib0_writeVarUint num =
     (if num > 127 then u8 (128 OR (127 AND num)) # lib0_writeVarUint (num div 128)
      else [u8 (127 AND num)])"
  by pat_completeness auto
termination
  by (relation "measure (\<lambda>num. num)") auto

declare lib0_writeVarUint.simps [simp del]

definition lib0_writeVarUint8Array :: "byte list \<Rightarrow> byte list" where
  "lib0_writeVarUint8Array uint8Array = lib0_writeVarUint (length uint8Array) @ uint8Array"

section \<open>The state of the client and of its environment\<close>

datatype ConnectionStatus = Connecting | Connected | Disconnected | Reconnecting

text \<open>The events of the provider's \<^verbatim>\<open>Observable\<close>: \<^verbatim>\<open>this.emit(name, [argument])\<close>.\<close>

datatype event =
    EvStatus ConnectionStatus
  | EvSynced bool
  | EvSync bool
  | EvConnectionError error
  | EvConnectionClose nat string

text \<open>
  What the client does to its environment, in the order it does it. \<open>StatusChange\<close>,
  \<open>ErrorReport\<close> and \<open>CloseReport\<close> are the manager's calls
  \<^verbatim>\<open>this.onStatusChange?.(status)\<close>, \<^verbatim>\<open>this.onError?.(error)\<close> and \<^verbatim>\<open>this.onClose?.(event)\<close>:
  the manager has no status field, its status is what it last reported, so the log keeps
  each report whether or not a handler is installed.
\<close>

datatype action =
    StatusChange ConnectionStatus
  | ErrorReport error
  | CloseReport nat string
  | NewWebTransport nat string        \<comment> \<open>\<^verbatim>\<open>new WebTransport(connectionUrl, options)\<close>\<close>
  | StreamWrite "byte list"            \<comment> \<open>\<^verbatim>\<open>this.syncWriter.write(bytes)\<close>\<close>
  | DatagramWrite "byte list"          \<comment> \<open>\<^verbatim>\<open>writer.write(data)\<close> on the datagram writable\<close>
  | TransportClose nat nat string      \<comment> \<open>\<^verbatim>\<open>this.transport.close({closeCode, reason})\<close>\<close>
  | ReleaseWriter
  | ReleaseReader
  | SetTimeout nat real                \<comment> \<open>\<^verbatim>\<open>setTimeout(reconnect, delay)\<close> and the handle it returns\<close>
  | ClearTimeout nat
  | SetInterval nat real
  | ClearInterval nat
  | Emit event
  | AwarenessOnUpdate                  \<comment> \<open>\<^verbatim>\<open>this.awareness.on('update', listener)\<close>\<close>
  | AwarenessApplyUpdate "byte list" string
  | AwarenessSetRemote nat json nat nat
      \<comment> \<open>\<^verbatim>\<open>setLocalStateField('_remote', {[clientId]: {...state, _clock, _timestamp}})\<close>\<close>
  | AwarenessEmitChange "nat list" "nat list" "nat list" string
  | AwarenessDestroy
  | ObservableDestroy                  \<comment> \<open>\<^verbatim>\<open>super.destroy()\<close>\<close>
  | Console string                     \<comment> \<open>the \<^verbatim>\<open>console\<close> line that tells of a message not sent\<close>

text \<open>
  A callback slot of the manager is \<^verbatim>\<open>null\<close> or holds the provider's method of the same
  purpose, bound to the provider (the provider's constructor is the only place of the
  package that fills the slots).
\<close>

datatype handler = ProviderMethod

record ConnectionManager =
  url :: string
  roomName :: string
  transport :: "nat option"
  syncStream :: "nat option"
  syncWriter :: "nat option"
  syncReader :: "nat option"
  reconnectAttempts :: nat
  maxReconnectAttempts :: real
  reconnectBaseDelay :: real
  reconnectMaxDelay :: real
  reconnectTimeout :: "nat option"
  destroyed :: bool
  onStatusChange :: "handler option"
  onSyncMessage :: "handler option"
  onDatagram :: "handler option"
  onError :: "handler option"
  onClose :: "handler option"

record AwarenessManager =
  useDatagrams :: bool
  broadcastInterval :: real
  intervalId :: "nat option"
  localClock :: nat
  remoteClocks :: "nat \<rightharpoonup> nat"

record WebTransportProviderOptions =
  opt_connect :: "bool option"
  opt_useUnreliableAwareness :: "bool option"
  opt_awarenessUpdateInterval :: "real option"
  opt_maxReconnectAttempts :: "real option"
  opt_reconnectBaseDelay :: "real option"
  opt_reconnectMaxDelay :: "real option"

text \<open>
  The provider's private fields \<^verbatim>\<open>_synced\<close>, \<^verbatim>\<open>_connected\<close> and \<^verbatim>\<open>destroyed\<close>; the last is
  \<open>p_destroyed\<close> here, the manager has a field of the same name.
\<close>

record WebTransportProvider =
  options :: WebTransportProviderOptions
  awarenessManager :: "AwarenessManager option"
  synced :: bool
  connected :: bool
  p_destroyed :: bool

text \<open>
  A function object. \<^verbatim>\<open>this.handleDocUpdate.bind(this)\<close> makes a new one at every
  evaluation; the number is its identity, which is what \<^verbatim>\<open>doc.off\<close> compares.
\<close>

datatype listener = BoundHandleDocUpdate nat | OtherListener nat

datatype origin = ThisProvider | OtherOrigin

record closeInfo =
  closeCode :: "nat option"
  reason :: "string option"

text \<open>
  The client and the part of the browser it acts on. \<open>timers\<close> are the armed
  \<^verbatim>\<open>setTimeout\<close> callbacks (every one of them is the reconnect callback of
  \<^verbatim>\<open>scheduleReconnect\<close>) with their delays; \<open>closedHandlers\<close> are the transports on whose
  \<^verbatim>\<open>closed\<close> promise \<^verbatim>\<open>connect\<close> has installed its two callbacks; \<open>closedQueue\<close> holds the
  close informations of \<^verbatim>\<open>closed\<close> promises that are resolved and whose callback has
  not run yet; \<open>streamBuffer\<close> is the local \<^verbatim>\<open>buffer\<close> of \<^verbatim>\<open>readSyncStream\<close>; \<open>nextId\<close>
  numbers the objects made so far (timer handles are positive, so a handle is truthy).
\<close>

record 'd world =
  conn :: ConnectionManager
  prov :: WebTransportProvider
  awareness :: Awareness
  doc :: 'd
  docObservers :: "listener list"
  timers :: "(nat \<times> real) list"
  closedHandlers :: "nat list"
  closedQueue :: "closeInfo list"
  streamBuffer :: "byte list"
  nextId :: nat
  log :: "action list"

definition does :: "action \<Rightarrow> 'd world \<Rightarrow> 'd world" where
  "does a w = w\<lparr>log := log w @ [a]\<rparr>"

section \<open>connection.ts: construction, sending and cleanup\<close>

record ConnectionOptions =
  maxReconnectAttempts_opt :: "real option"
  reconnectBaseDelay_opt :: "real option"
  reconnectMaxDelay_opt :: "real option"

text \<open>\<^verbatim>\<open>value ?? fallback\<close>\<close>

definition orElse :: "'a option \<Rightarrow> 'a \<Rightarrow> 'a" where
  "orElse v fallback = (case v of None \<Rightarrow> fallback | Some x \<Rightarrow> x)"

definition newConnectionManager :: "string \<Rightarrow> string \<Rightarrow> ConnectionOptions \<Rightarrow> ConnectionManager" where
  "newConnectionManager u room opts =
     \<lparr>url = u, roomName = room,
      transport = None, syncStream = None, syncWriter = None, syncReader = None,
      reconnectAttempts = 0,
      maxReconnectAttempts = orElse (maxReconnectAttempts_opt opts) 10,
      reconnectBaseDelay = orElse (reconnectBaseDelay_opt opts) 1000,
      reconnectMaxDelay = orElse (reconnectMaxDelay_opt opts) 30000,
      reconnectTimeout = None, destroyed = False,
      onStatusChange = None, onSyncMessage = None, onDatagram = None,
      onError = None, onClose = None\<rparr>"

text \<open>The getter \<^verbatim>\<open>connected\<close> of the manager.\<close>

definition cm_connected :: "ConnectionManager \<Rightarrow> bool" where
  "cm_connected c = (transport c \<noteq> None \<and> syncWriter c \<noteq> None)"

text \<open>
  \<^verbatim>\<open>sendSyncMessage\<close> is \<^verbatim>\<open>async\<close>: the first component is the error its promise rejects
  with, \<open>None\<close> when it resolves. The function has no \<^verbatim>\<open>throw\<close>, and the write is taken to
  be accepted by the stream. It frames the payload itself and does not call
  \<^verbatim>\<open>frameMessage\<close>.
\<close>

definition sendSyncMessage :: "byte list \<Rightarrow> 'd world \<Rightarrow> error option \<times> 'd world" where
  "sendSyncMessage data w =
     (if syncWriter (conn w) = None
      then (None, does (Console ''Cannot send: sync stream not open'') w)
      else (None, does (StreamWrite
              (u8 (drop_bit 8 (length data) AND 255) # u8 (length data AND 255) # data)) w))"

text \<open>\<^verbatim>\<open>sendDatagram\<close>; a failing write is caught and only printed.\<close>

definition sendDatagram :: "byte list \<Rightarrow> 'd world \<Rightarrow> 'd world" where
  "sendDatagram data w =
     (if transport (conn w) = None then w else does (DatagramWrite data) w)"

text \<open>
  \<^verbatim>\<open>cleanup\<close>. The log keeps the two calls of \<^verbatim>\<open>releaseLock()\<close>. In the browser, releasing
  the reader while a read is pending rejects that read, which \<^verbatim>\<open>readSyncStream\<close> catches;
  here that is an event of its own, \<open>streamReadFails\<close> below, and \<open>cleanup\<close> does not make
  it happen.
\<close>

definition cleanup :: "'d world \<Rightarrow> 'd world" where
  "cleanup w =
     (let w1 = (if syncWriter (conn w) \<noteq> None
                then (does ReleaseWriter w)\<lparr>conn := (conn w)\<lparr>syncWriter := None\<rparr>\<rparr> else w);
          w2 = (if syncReader (conn w1) \<noteq> None
                then (does ReleaseReader w1)\<lparr>conn := (conn w1)\<lparr>syncReader := None\<rparr>\<rparr> else w1)
      in w2\<lparr>conn := (conn w2)\<lparr>syncStream := None, transport := None\<rparr>\<rparr>)"

section \<open>awareness-manager.ts\<close>

text \<open>
  The pipeline calls the \<^verbatim>\<open>Awareness\<close> object; the log keeps these calls and the model
  does not follow what the object does in turn (\<^verbatim>\<open>setLocalStateField\<close>, for one, does
  nothing on a local state that is \<^verbatim>\<open>null\<close> and otherwise calls the \<^verbatim>\<open>update\<close> listeners, the
  pipeline's own among them). \<^verbatim>\<open>cleanupStaleStates\<close>, which nothing in the
  package calls, is left out. The pipeline's two send closures are the
  manager's \<^verbatim>\<open>sendSyncMessage\<close> and \<^verbatim>\<open>sendDatagram\<close>, as \<^verbatim>\<open>startSync\<close> passes them.
\<close>

definition newAwarenessManager :: "bool option \<Rightarrow> real option \<Rightarrow> AwarenessManager" where
  "newAwarenessManager useDatagrams_opt broadcastInterval_opt =
     \<lparr>useDatagrams = orElse useDatagrams_opt True,
      broadcastInterval = orElse broadcastInterval_opt 50,
      intervalId = None, localClock = 0, remoteClocks = Map.empty\<rparr>"

definition am_stop :: "AwarenessManager \<Rightarrow> AwarenessManager \<times> action list" where
  "am_stop am =
     (case intervalId am of
        None \<Rightarrow> (am, [])
      | Some i \<Rightarrow> (am\<lparr>intervalId := None\<rparr>, [ClearInterval i]))"

definition am_destroy :: "AwarenessManager \<Rightarrow> AwarenessManager \<times> action list" where
  "am_destroy am = (let (am1, acts) = am_stop am in (am1\<lparr>remoteClocks := Map.empty\<rparr>, acts))"

text \<open>
  \<^verbatim>\<open>handleDatagram\<close>. The whole body is inside \<^verbatim>\<open>try\<close>, and the \<^verbatim>\<open>catch\<close> only prints: where
  \<^verbatim>\<open>decodeAwarenessDatagram\<close> or \<^verbatim>\<open>decodeState\<close> throws, the function returns with what it
  had done until then. \<open>now\<close> is \<^verbatim>\<open>Date.now()\<close>.
\<close>

definition am_handleDatagram ::
  "'d yjs \<Rightarrow> nat \<Rightarrow> Awareness \<Rightarrow> byte list \<Rightarrow> AwarenessManager \<Rightarrow> AwarenessManager \<times> action list" where
  "am_handleDatagram X now aw data am =
     (case decodeAwarenessDatagram data of
        Inl e \<Rightarrow> (am, [])
      | Inr d \<Rightarrow>
          if clientId d = clientID aw then (am, [])
          else
            (let lastClock = orElse (remoteClocks am (clientId d)) 0 in
             if clock d \<le> lastClock then (am, [])
             else
               (let am1 = am\<lparr>remoteClocks := (remoteClocks am)(clientId d \<mapsto> clock d)\<rparr> in
                case jsonParse X (state d) of
                  None \<Rightarrow> (am1, [])
                | Some st \<Rightarrow>
                    (am1, [AwarenessSetRemote (clientId d) st (clock d) now,
                           AwarenessEmitChange [] [clientId d] [] ''remote-datagram'']))))"

text \<open>\<^verbatim>\<open>handleStreamMessage\<close>: the frame without its first byte goes to the awareness codec.\<close>

definition am_handleStreamMessage :: "byte list \<Rightarrow> action list" where
  "am_handleStreamMessage data = [AwarenessApplyUpdate (drop 1 data) ''remote-stream'']"

text \<open>
  The functions of the pipeline that send. They act on the pipeline the provider holds;
  with no pipeline there is nothing to call them on.
\<close>

definition broadcastLocalStateDatagram :: "'d yjs \<Rightarrow> 'd world \<Rightarrow> 'd world" where
  "broadcastLocalStateDatagram X w =
     (case awarenessManager (prov w) of
        None \<Rightarrow> w
      | Some am \<Rightarrow>
          (case localState (awareness w) of
             None \<Rightarrow> w
           | Some st \<Rightarrow>
               (let am1 = am\<lparr>localClock := localClock am + 1\<rparr>;
                    w1 = w\<lparr>prov := (prov w)\<lparr>awarenessManager := Some am1\<rparr>\<rparr>
                in sendDatagram
                     (encodeAwarenessDatagram (clientID (awareness w1)) (localClock am1)
                        (jsonStringify X st)) w1)))"

definition broadcastStateStream :: "'d yjs \<Rightarrow> nat list \<Rightarrow> 'd world \<Rightarrow> 'd world" where
  "broadcastStateStream X clients w =
     (case encodeAwarenessUpdate X (awareness w) clients of
        None \<Rightarrow> w
      | Some update \<Rightarrow> snd (sendSyncMessage (encodeAwarenessMessage update) w))"

definition broadcastFullState :: "'d yjs \<Rightarrow> 'd world \<Rightarrow> 'd world" where
  "broadcastFullState X w =
     (let clients = states (awareness w) in
      if length clients > 0 then broadcastStateStream X clients w else w)"

definition startDatagramBroadcast :: "'d world \<Rightarrow> 'd world" where
  "startDatagramBroadcast w =
     (case awarenessManager (prov w) of
        None \<Rightarrow> w
      | Some am \<Rightarrow>
          if intervalId am \<noteq> None then w
          else (does (SetInterval (nextId w) (broadcastInterval am)) w)
                 \<lparr>prov := (prov w)\<lparr>awarenessManager := Some (am\<lparr>intervalId := Some (nextId w)\<rparr>)\<rparr>,
                  nextId := nextId w + 1\<rparr>)"

definition am_start :: "'d yjs \<Rightarrow> 'd world \<Rightarrow> 'd world" where
  "am_start X w =
     (case awarenessManager (prov w) of
        None \<Rightarrow> w
      | Some am \<Rightarrow>
          broadcastFullState X (if useDatagrams am then startDatagramBroadcast w else w))"

text \<open>
  The listener \<^verbatim>\<open>setupLocalAwarenessListener\<close> registers, run on an \<^verbatim>\<open>update\<close> event of the
  awareness object.
\<close>

definition localAwarenessListener ::
  "'d yjs \<Rightarrow> nat list \<Rightarrow> nat list \<Rightarrow> nat list \<Rightarrow> 'd world \<Rightarrow> 'd world" where
  "localAwarenessListener X added updated removed w =
     (let changedClients = added @ updated @ removed in
      case awarenessManager (prov w) of
        None \<Rightarrow> w
      | Some am \<Rightarrow>
          if clientID (awareness w) \<in> set changedClients
          then (if useDatagrams am then broadcastLocalStateDatagram X w
                else broadcastStateStream X changedClients w)
          else w)"

section \<open>provider.ts: the handlers the provider installs\<close>

definition does_all :: "action list \<Rightarrow> 'd world \<Rightarrow> 'd world" where
  "does_all acts w = w\<lparr>log := log w @ acts\<rparr>"

definition startSync :: "'d yjs \<Rightarrow> 'd world \<Rightarrow> 'd world" where
  "startSync X w =
     (let am = newAwarenessManager
                 (Some (opt_useUnreliableAwareness (options (prov w)) \<noteq> Some False))
                 (opt_awarenessUpdateInterval (options (prov w)));
          w1 = (does AwarenessOnUpdate w)\<lparr>prov := (prov w)\<lparr>awarenessManager := Some am\<rparr>\<rparr>;
          message = writeVarUint X 0 @ writeSyncStep1 X (doc w1);
          w2 = snd (sendSyncMessage message w1)
      in am_start X w2)"

definition handleStatusChange :: "'d yjs \<Rightarrow> ConnectionStatus \<Rightarrow> 'd world \<Rightarrow> 'd world" where
  "handleStatusChange X status w =
     (let wasConnected = connected (prov w);
          w1 = w\<lparr>prov := (prov w)\<lparr>connected := (status = Connected)\<rparr>\<rparr>;
          w2 = (if status = Connected \<and> \<not> wasConnected then startSync X w1
                else if status = Disconnected \<and> wasConnected
                then does (Emit (EvSynced False)) (w1\<lparr>prov := (prov w1)\<lparr>synced := False\<rparr>\<rparr>)
                else w1)
      in does (Emit (EvStatus status)) w2)"

definition handleDocUpdate :: "'d yjs \<Rightarrow> byte list \<Rightarrow> origin \<Rightarrow> 'd world \<Rightarrow> 'd world" where
  "handleDocUpdate X update origin w =
     (if origin = ThisProvider then w
      else if \<not> connected (prov w) then does (Console ''Queuing update (not connected)'') w
      else snd (sendSyncMessage (writeVarUint X 2 @ writeVarUint8Array X update) w))"

text \<open>
  The document calls its \<^verbatim>\<open>update\<close> listeners, in the order they were added. A listener
  made by \<^verbatim>\<open>this.handleDocUpdate.bind(this)\<close> runs \<^verbatim>\<open>handleDocUpdate\<close>, whichever
  evaluation of \<^verbatim>\<open>bind\<close> made it.
\<close>

definition runListener :: "'d yjs \<Rightarrow> byte list \<Rightarrow> origin \<Rightarrow> listener \<Rightarrow> 'd world \<Rightarrow> 'd world" where
  "runListener X update origin l w =
     (case l of
        BoundHandleDocUpdate i \<Rightarrow> handleDocUpdate X update origin w
      | OtherListener i \<Rightarrow> w)"

definition docEmitUpdate :: "'d yjs \<Rightarrow> byte list \<Rightarrow> origin \<Rightarrow> 'd world \<Rightarrow> 'd world" where
  "docEmitUpdate X update origin w = fold (runListener X update origin) (docObservers w) w"

text \<open>
  The three handlers of document messages. An update applied with the provider as its
  origin makes the document call its listeners with that origin.
\<close>

definition handleSyncStep1 :: "'d yjs \<Rightarrow> byte list \<Rightarrow> 'd world \<Rightarrow> error + 'd world" where
  "handleSyncStep1 X data w =
     (case readSyncStep1 X data (doc w) of
        None \<Rightarrow> Inl DecodeError
      | Some reply \<Rightarrow>
          (let response = writeVarUint X 1 @ reply;
               w1 = (if length response > 1 then snd (sendSyncMessage response w) else w);
               w2 = (if \<not> synced (prov w1)
                     then snd (sendSyncMessage (writeVarUint X 0 @ writeSyncStep1 X (doc w1)) w1)
                     else w1)
           in Inr w2))"

definition handleSyncStep2 :: "'d yjs \<Rightarrow> byte list \<Rightarrow> 'd world \<Rightarrow> error + 'd world" where
  "handleSyncStep2 X data w =
     (case readSyncStep2 X data (doc w) of
        None \<Rightarrow> Inl DecodeError
      | Some d \<Rightarrow>
          (let w1 = docEmitUpdate X data ThisProvider (w\<lparr>doc := d\<rparr>) in
           if \<not> synced (prov w1)
           then Inr (does_all [Emit (EvSynced True), Emit (EvSync True)]
                       (w1\<lparr>prov := (prov w1)\<lparr>synced := True\<rparr>\<rparr>))
           else Inr w1))"

definition handleRemoteUpdate :: "'d yjs \<Rightarrow> byte list \<Rightarrow> 'd world \<Rightarrow> error + 'd world" where
  "handleRemoteUpdate X data w =
     (case applyUpdate X data (doc w) of
        None \<Rightarrow> Inl DecodeError
      | Some d \<Rightarrow> Inr (docEmitUpdate X data ThisProvider (w\<lparr>doc := d\<rparr>)))"

definition handleSyncMessage :: "'d yjs \<Rightarrow> byte list \<Rightarrow> 'd world \<Rightarrow> error + 'd world" where
  "handleSyncMessage X data w =
     (if length data = 0 then Inr w
      else
        (let messageType = unat (data ! 0) in
         if messageType = 0 then handleSyncStep1 X (drop 1 data) w
         else if messageType = 1 then handleSyncStep2 X (drop 1 data) w
         else if messageType = 2 then handleRemoteUpdate X (drop 1 data) w
         else if messageType = 3
         then (case awarenessManager (prov w) of
                 None \<Rightarrow> Inr w
               | Some am \<Rightarrow> Inr (does_all (am_handleStreamMessage data) w))
         else Inr (does (Console ''Unknown message type'') w)))"

definition handleDatagram :: "'d yjs \<Rightarrow> nat \<Rightarrow> byte list \<Rightarrow> 'd world \<Rightarrow> 'd world" where
  "handleDatagram X now data w =
     (case awarenessManager (prov w) of
        None \<Rightarrow> w
      | Some am \<Rightarrow>
          (let (am1, acts) = am_handleDatagram X now (awareness w) data am
           in (does_all acts w)\<lparr>prov := (prov w)\<lparr>awarenessManager := Some am1\<rparr>\<rparr>))"

definition provider_handleError :: "error \<Rightarrow> 'd world \<Rightarrow> 'd world" where
  "provider_handleError e w = does (Emit (EvConnectionError e)) w"

definition provider_handleClose :: "nat \<Rightarrow> string \<Rightarrow> 'd world \<Rightarrow> 'd world" where
  "provider_handleClose code why w = does (Emit (EvConnectionClose code why)) w"

section \<open>connection.ts: the lifecycle\<close>

text \<open>The calls through the callback slots.\<close>

definition reportStatus :: "'d yjs \<Rightarrow> ConnectionStatus \<Rightarrow> 'd world \<Rightarrow> 'd world" where
  "reportStatus X status w =
     (let w1 = does (StatusChange status) w in
      case onStatusChange (conn w1) of
        None \<Rightarrow> w1
      | Some ProviderMethod \<Rightarrow> handleStatusChange X status w1)"

definition reportError :: "error \<Rightarrow> 'd world \<Rightarrow> 'd world" where
  "reportError e w =
     (let w1 = does (ErrorReport e) w in
      case onError (conn w1) of
        None \<Rightarrow> w1
      | Some ProviderMethod \<Rightarrow> provider_handleError e w1)"

definition reportClose :: "nat \<Rightarrow> string \<Rightarrow> 'd world \<Rightarrow> 'd world" where
  "reportClose code why w =
     (let w1 = does (CloseReport code why) w in
      case onClose (conn w1) of
        None \<Rightarrow> w1
      | Some ProviderMethod \<Rightarrow> provider_handleClose code why w1)"

text \<open>
  \<^verbatim>\<open>scheduleReconnect\<close>. The delay is computed before the status is reported and before
  the counter is incremented. Two things of the code are not in this definition. The term
  \<^verbatim>\<open>Math.random() * 1000\<close> is the argument \<open>jitter\<close>: the draw, its range and its distribution
  belong to the generator of the browser. And numbers are reals: the code computes the
  delay in doubles, where the sum is rounded (with a base delay of \<open>2 ^ 53\<close> and a jitter
  of 1 the code arms \<open>2 ^ 53\<close>, this definition \<open>2 ^ 53 + 1\<close>) and where a product can be
  infinite or no number at all. What is proved below about the counter, the timers and the
  number of opens does not depend on the value of the delay.
\<close>

definition scheduleReconnect :: "'d yjs \<Rightarrow> real \<Rightarrow> 'd world \<Rightarrow> 'd world" where
  "scheduleReconnect X jitter w =
     (if real (reconnectAttempts (conn w)) \<ge> maxReconnectAttempts (conn w) then w
      else
        (let delay = min (reconnectBaseDelay (conn w) * 2 ^ reconnectAttempts (conn w) + jitter)
                         (reconnectMaxDelay (conn w));
             w1 = reportStatus X Reconnecting w;
             w2 = w1\<lparr>conn := (conn w1)\<lparr>reconnectAttempts := reconnectAttempts (conn w1) + 1\<rparr>\<rparr>;
             t = nextId w2
         in (does (SetTimeout t delay) w2)
              \<lparr>conn := (conn w2)\<lparr>reconnectTimeout := Some t\<rparr>,
               timers := timers w2 @ [(t, delay)],
               nextId := t + 1\<rparr>))"

definition handleError :: "'d yjs \<Rightarrow> real \<Rightarrow> error \<Rightarrow> 'd world \<Rightarrow> 'd world" where
  "handleError X jitter e w =
     (let w1 = reportError e (cleanup w) in
      if \<not> destroyed (conn w1) then scheduleReconnect X jitter w1 else w1)"

definition handleClose :: "'d yjs \<Rightarrow> real \<Rightarrow> closeInfo \<Rightarrow> 'd world \<Rightarrow> 'd world" where
  "handleClose X jitter info w =
     (let w1 = reportClose (orElse (closeCode info) 0) (orElse (reason info) []) (cleanup w);
          w2 = reportStatus X Disconnected w1
      in if \<not> destroyed (conn w2) then scheduleReconnect X jitter w2 else w2)"

text \<open>
  How the browser answers one \<^verbatim>\<open>connect()\<close>: the constructor of \<^verbatim>\<open>WebTransport\<close> throws, the
  \<^verbatim>\<open>ready\<close> promise rejects, \<^verbatim>\<open>createBidirectionalStream()\<close> rejects, the write of the stream
  type byte rejects, or all of them succeed.
\<close>

datatype open_failure = ConstructorThrows | ReadyRejects | CreateStreamRejects | WriteRejects

datatype open_outcome = Fails open_failure | Opens

text \<open>
  The body of the \<^verbatim>\<open>try\<close> block of \<^verbatim>\<open>connect\<close> up to the point where it throws or has
  installed the callbacks on \<^verbatim>\<open>closed\<close>, \<^verbatim>\<open>openSyncStream\<close> included. It returns what was
  thrown and the state at that point. The transport object is numbered \<open>nextId\<close>, the
  stream the number after it.
\<close>

definition tryOpen :: "open_outcome \<Rightarrow> 'd world \<Rightarrow> error option \<times> 'd world" where
  "tryOpen outcome w =
     (let t = nextId w;
          w1 = (does (NewWebTransport t (url (conn w) @ ''/collab/'' @ roomName (conn w))) w)
                 \<lparr>nextId := t + 2\<rparr>;
          ready = w1\<lparr>conn := (conn w1)\<lparr>transport := Some t\<rparr>\<rparr>;
          stream = ready\<lparr>conn := (conn ready)
                     \<lparr>syncStream := Some (t + 1), syncWriter := Some (t + 1),
                      syncReader := Some (t + 1)\<rparr>\<rparr>
      in case outcome of
           Fails ConstructorThrows \<Rightarrow> (Some (Transport ''WebTransport constructor''), w1)
         | Fails ReadyRejects \<Rightarrow> (Some (Transport ''ready''), ready)
         | Fails CreateStreamRejects \<Rightarrow> (Some (Transport ''createBidirectionalStream''), ready)
         | Fails WriteRejects \<Rightarrow> (Some (Transport ''write''), stream)
         | Opens \<Rightarrow>
             (None, (does (StreamWrite [0x01]) stream)
                      \<lparr>streamBuffer := [], closedHandlers := t # closedHandlers stream\<rparr>))"

text \<open>
  \<^verbatim>\<open>connect\<close>: the error the promise rejects with, if any, and the state after it.
  \<open>supported\<close> is \<^verbatim>\<open>ConnectionManager.isSupported()\<close>.
\<close>

definition connect ::
  "'d yjs \<Rightarrow> bool \<Rightarrow> open_outcome \<Rightarrow> real \<Rightarrow> 'd world \<Rightarrow> error option \<times> 'd world" where
  "connect X supported outcome jitter w =
     (if destroyed (conn w) then (Some Destroyed, w)
      else if \<not> supported then (Some Unsupported, w)
      else
        (case tryOpen outcome (reportStatus X Connecting w) of
           (Some e, w1) \<Rightarrow> (Some e, handleError X jitter e w1)
         | (None, w1) \<Rightarrow>
             (None, reportStatus X Connected (w1\<lparr>conn := (conn w1)\<lparr>reconnectAttempts := 0\<rparr>\<rparr>))))"

text \<open>
  \<^verbatim>\<open>this.transport.close({closeCode, reason})\<close>, and what it does in the browser: the
  \<^verbatim>\<open>closed\<close> promise of a ready transport resolves with the close information given, so
  callbacks installed on it are due.
\<close>

definition transportClose :: "nat \<Rightarrow> nat \<Rightarrow> string \<Rightarrow> 'd world \<Rightarrow> 'd world" where
  "transportClose t code why w =
     (let w1 = does (TransportClose t code why) w in
      if t \<in> set (closedHandlers w1)
      then w1\<lparr>closedHandlers := removeAll t (closedHandlers w1),
              closedQueue := closedQueue w1 @ [\<lparr>closeCode = Some code, reason = Some why\<rparr>]\<rparr>
      else w1)"

definition disconnect :: "'d yjs \<Rightarrow> 'd world \<Rightarrow> 'd world" where
  "disconnect X w =
     (let w1 = (case reconnectTimeout (conn w) of
                  None \<Rightarrow> w
                | Some t \<Rightarrow>
                    (does (ClearTimeout t) w)
                      \<lparr>conn := (conn w)\<lparr>reconnectTimeout := None\<rparr>,
                       timers := filter (\<lambda>(i, d). i \<noteq> t) (timers w)\<rparr>);
          w2 = (case transport (conn w1) of
                  None \<Rightarrow> w1
                | Some t \<Rightarrow> transportClose t 1000 ''Client disconnect'' w1)
      in reportStatus X Disconnected (cleanup w2))"

definition destroy :: "'d yjs \<Rightarrow> 'd world \<Rightarrow> 'd world" where
  "destroy X w = disconnect X (w\<lparr>conn := (conn w)\<lparr>destroyed := True\<rparr>\<rparr>)"

subsection \<open>What the browser calls\<close>

text \<open>
  An armed timer fires: the reconnect callback runs \<^verbatim>\<open>this.connect().catch(...)\<close>, which
  prints the error and drops it.
\<close>

definition timerFires ::
  "'d yjs \<Rightarrow> bool \<Rightarrow> open_outcome \<Rightarrow> real \<Rightarrow> nat \<Rightarrow> 'd world \<Rightarrow> 'd world" where
  "timerFires X supported outcome jitter t w =
     (if t \<in> fst ` set (timers w)
      then snd (connect X supported outcome jitter
                  (w\<lparr>timers := filter (\<lambda>(i, d). i \<noteq> t) (timers w)\<rparr>))
      else w)"

text \<open>The first callback of \<^verbatim>\<open>this.transport.closed.then(...)\<close> that is due runs.\<close>

definition closedCallback :: "'d yjs \<Rightarrow> real \<Rightarrow> 'd world \<Rightarrow> 'd world" where
  "closedCallback X jitter w =
     (case closedQueue w of
        [] \<Rightarrow> w
      | info # rest \<Rightarrow> handleClose X jitter info (w\<lparr>closedQueue := rest\<rparr>))"

text \<open>The peer or the network closes transport \<open>t\<close>: \<^verbatim>\<open>closed\<close> resolves or rejects.\<close>

definition transportClosed :: "'d yjs \<Rightarrow> real \<Rightarrow> nat \<Rightarrow> closeInfo \<Rightarrow> 'd world \<Rightarrow> 'd world" where
  "transportClosed X jitter t info w =
     (if t \<in> set (closedHandlers w)
      then handleClose X jitter info (w\<lparr>closedHandlers := removeAll t (closedHandlers w)\<rparr>)
      else w)"

definition transportFailed :: "'d yjs \<Rightarrow> real \<Rightarrow> nat \<Rightarrow> error \<Rightarrow> 'd world \<Rightarrow> 'd world" where
  "transportFailed X jitter t e w =
     (if t \<in> set (closedHandlers w)
      then handleError X jitter e (w\<lparr>closedHandlers := removeAll t (closedHandlers w)\<rparr>)
      else w)"

text \<open>
  \<^verbatim>\<open>readSyncStream\<close>. \<^verbatim>\<open>this.onSyncMessage?.(message)\<close> is inside the \<^verbatim>\<open>try\<close>: an exception of
  the handler ends the loop and reaches the \<^verbatim>\<open>catch\<close>, as a failing read does.
\<close>

definition deliverSyncMessage :: "'d yjs \<Rightarrow> byte list \<Rightarrow> 'd world \<Rightarrow> error + 'd world" where
  "deliverSyncMessage X message w =
     (case onSyncMessage (conn w) of
        None \<Rightarrow> Inr w
      | Some ProviderMethod \<Rightarrow> handleSyncMessage X message w)"

function processMessages ::
  "'d yjs \<Rightarrow> byte list \<Rightarrow> 'd world \<Rightarrow> error option \<times> byte list \<times> 'd world" where
  "processMessages X buffer w =
     (if length buffer \<ge> 2 then
        (let msgLen = push_bit 8 (unat (buffer ! 0)) OR unat (buffer ! 1) in
         if length buffer < 2 + msgLen then (None, buffer, w)
         else
           (case deliverSyncMessage X (slice buffer 2 (2 + msgLen)) w of
              Inl e \<Rightarrow> (Some e, drop (2 + msgLen) buffer, w)
            | Inr w1 \<Rightarrow> processMessages X (drop (2 + msgLen) buffer) w1))
      else (None, buffer, w))"
  by pat_completeness auto
termination
  by (relation "measure (\<lambda>(X, buffer, w). length buffer)") auto

declare processMessages.simps [simp del]

definition streamReadFails :: "'d yjs \<Rightarrow> real \<Rightarrow> error \<Rightarrow> 'd world \<Rightarrow> 'd world" where
  "streamReadFails X jitter e w =
     (if \<not> destroyed (conn w) then handleError X jitter e w else w)"

definition streamChunk :: "'d yjs \<Rightarrow> real \<Rightarrow> byte list \<Rightarrow> 'd world \<Rightarrow> 'd world" where
  "streamChunk X jitter chunk w =
     (case processMessages X (streamBuffer w @ chunk) w of
        (None, buffer, w1) \<Rightarrow> w1\<lparr>streamBuffer := buffer\<rparr>
      | (Some e, buffer, w1) \<Rightarrow> streamReadFails X jitter e (w1\<lparr>streamBuffer := buffer\<rparr>))"

text \<open>\<^verbatim>\<open>listenDatagrams\<close>: \<^verbatim>\<open>this.onDatagram?.(value)\<close>.\<close>

definition datagramArrives :: "'d yjs \<Rightarrow> nat \<Rightarrow> byte list \<Rightarrow> 'd world \<Rightarrow> 'd world" where
  "datagramArrives X now data w =
     (case onDatagram (conn w) of
        None \<Rightarrow> w
      | Some ProviderMethod \<Rightarrow> handleDatagram X now data w)"

section \<open>provider.ts: construction, connection and destruction\<close>

text \<open>
  \<^verbatim>\<open>doc.on('update', f)\<close> and \<^verbatim>\<open>doc.off('update', f)\<close>: the listeners of an event are a set
  of function objects, kept in the order they were added.
\<close>

definition docOn :: "listener \<Rightarrow> 'd world \<Rightarrow> 'd world" where
  "docOn f w = (if f \<in> set (docObservers w) then w else w\<lparr>docObservers := docObservers w @ [f]\<rparr>)"

definition docOff :: "listener \<Rightarrow> 'd world \<Rightarrow> 'd world" where
  "docOff f w = w\<lparr>docObservers := removeAll f (docObservers w)\<rparr>"

text \<open>\<^verbatim>\<open>this.handleDocUpdate.bind(this)\<close>: a new function object.\<close>

definition bindHandleDocUpdate :: "'d world \<Rightarrow> listener \<times> 'd world" where
  "bindHandleDocUpdate w = (BoundHandleDocUpdate (nextId w), w\<lparr>nextId := nextId w + 1\<rparr>)"

text \<open>
  The constructor up to its last statement, on a document \<open>d\<close> that has the listeners
  numbered \<open>others\<close> already (functions of the host application), with the awareness
  object \<open>aw\<close> (the one of the options, or the new one).
\<close>

definition newWebTransportProvider ::
  "string \<Rightarrow> string \<Rightarrow> 'd \<Rightarrow> nat list \<Rightarrow> Awareness \<Rightarrow> WebTransportProviderOptions \<Rightarrow> 'd world" where
  "newWebTransportProvider serverUrl room d others aw opts =
     (let c = newConnectionManager serverUrl room
                \<lparr>maxReconnectAttempts_opt = opt_maxReconnectAttempts opts,
                 reconnectBaseDelay_opt = opt_reconnectBaseDelay opts,
                 reconnectMaxDelay_opt = opt_reconnectMaxDelay opts\<rparr>;
          w = \<lparr>conn = c\<lparr>onStatusChange := Some ProviderMethod, onSyncMessage := Some ProviderMethod,
                         onDatagram := Some ProviderMethod, onError := Some ProviderMethod,
                         onClose := Some ProviderMethod\<rparr>,
               prov = \<lparr>options = opts, awarenessManager = None, synced = False,
                       connected = False, p_destroyed = False\<rparr>,
               awareness = aw, doc = d, docObservers = map OtherListener others,
               timers = [], closedHandlers = [], closedQueue = [], streamBuffer = [],
               nextId = 1, log = []\<rparr>;
          (f, w1) = bindHandleDocUpdate w
      in docOn f w1)"

definition provider_connect ::
  "'d yjs \<Rightarrow> bool \<Rightarrow> open_outcome \<Rightarrow> real \<Rightarrow> 'd world \<Rightarrow> error option \<times> 'd world" where
  "provider_connect X supported outcome jitter w =
     (if p_destroyed (prov w) then (Some Destroyed, w)
      else connect X supported outcome jitter w)"

text \<open>The last statement of the constructor: \<^verbatim>\<open>if (options.connect !== false) this.connect()\<close>.\<close>

definition constructProvider ::
  "'d yjs \<Rightarrow> bool \<Rightarrow> open_outcome \<Rightarrow> real \<Rightarrow> string \<Rightarrow> string \<Rightarrow> 'd \<Rightarrow> nat list
     \<Rightarrow> Awareness \<Rightarrow> WebTransportProviderOptions \<Rightarrow> 'd world" where
  "constructProvider X supported outcome jitter serverUrl room d others aw opts =
     (let w = newWebTransportProvider serverUrl room d others aw opts in
      if opt_connect opts \<noteq> Some False then snd (provider_connect X supported outcome jitter w)
      else w)"

definition provider_disconnect :: "'d yjs \<Rightarrow> 'd world \<Rightarrow> 'd world" where
  "provider_disconnect X w =
     (let w1 = disconnect X w in
      case awarenessManager (prov w1) of
        None \<Rightarrow> w1
      | Some am \<Rightarrow>
          (let (am1, acts) = am_stop am
           in (does_all acts w1)\<lparr>prov := (prov w1)\<lparr>awarenessManager := Some am1\<rparr>\<rparr>))"

definition provider_destroy :: "'d yjs \<Rightarrow> 'd world \<Rightarrow> 'd world" where
  "provider_destroy X w =
     (if p_destroyed (prov w) then w
      else
        (let w1 = does AwarenessDestroy (w\<lparr>prov := (prov w)\<lparr>p_destroyed := True\<rparr>\<rparr>);
             w2 = (case awarenessManager (prov w1) of
                     None \<Rightarrow> w1
                   | Some am \<Rightarrow>
                       (let (am1, acts) = am_destroy am
                        in (does_all acts w1)\<lparr>prov := (prov w1)\<lparr>awarenessManager := Some am1\<rparr>\<rparr>));
             w3 = destroy X w2;
             (f, w4) = bindHandleDocUpdate w3
         in does ObservableDestroy (docOff f w4)))"

section \<open>A client to run\<close>

text \<open>
  Concrete values for the runs below. \<open>exampleYjs\<close> stands for the libraries: the two
  encoders of \<^verbatim>\<open>lib0\<close> are the library's; the document is the list of the updates applied
  to it; the state vector, the reply to sync step 1 and the awareness update are fixed
  byte strings; the state codec knows the one text \<^verbatim>\<open>{}\<close>, and like \<^verbatim>\<open>JSON.parse\<close> it
  fails on the empty text. \<open>exampleProvider\<close> is a provider constructed with the options
  given, on a browser that supports the transport and whose first open succeeds.
\<close>

definition exampleYjs :: "byte list list yjs" where
  "exampleYjs =
     \<lparr>writeVarUint = lib0_writeVarUint,
      writeVarUint8Array = lib0_writeVarUint8Array,
      writeSyncStep1 = (\<lambda>d. [0, 1, 0]),
      readSyncStep1 = (\<lambda>data d. Some [1, 2, 0, 0]),
      readSyncStep2 = (\<lambda>data d. Some (d @ [data])),
      applyUpdate = (\<lambda>data d. Some (d @ [data])),
      encodeAwarenessUpdate = (\<lambda>aw clients. Some [u8 (length clients)]),
      jsonStringify = (\<lambda>j. [0x7B, 0x7D]),
      jsonParse = (\<lambda>data. if data = [0x7B, 0x7D] then Some (JObject []) else None)\<rparr>"

definition exampleAwareness :: Awareness where
  "exampleAwareness = \<lparr>clientID = 1, localState = Some (JObject []), states = [1]\<rparr>"

definition exampleOptions :: "bool option \<Rightarrow> real option \<Rightarrow> real option \<Rightarrow> real option \<Rightarrow> WebTransportProviderOptions" where
  "exampleOptions c n b m =
     \<lparr>opt_connect = c, opt_useUnreliableAwareness = None,
      opt_awarenessUpdateInterval = None, opt_maxReconnectAttempts = n,
      opt_reconnectBaseDelay = b, opt_reconnectMaxDelay = m\<rparr>"

definition exampleProvider :: "bool option \<Rightarrow> real option \<Rightarrow> real option \<Rightarrow> real option \<Rightarrow> byte list list world" where
  "exampleProvider c n b m =
     constructProvider exampleYjs True Opens 0 ''https://example.org'' ''room'' [] []
       exampleAwareness (exampleOptions c n b m)"

text \<open>The example client after the frame \<open>[0x01, 0x05, 0x06]\<close>, a sync step 2, has arrived.\<close>

definition syncedProvider :: "byte list list world" where
  "syncedProvider = streamChunk exampleYjs 0 [0x00, 0x03, 0x01, 0x05, 0x06]
                      (exampleProvider None None None None)"

section \<open>Notions the statements use\<close>

text \<open>An open is an evaluation of \<^verbatim>\<open>new WebTransport(...)\<close>; \<^verbatim>\<open>connect\<close> is its only place.\<close>

definition isOpen :: "action \<Rightarrow> bool" where
  "isOpen a = (case a of NewWebTransport t u \<Rightarrow> True | _ \<Rightarrow> False)"

definition opens :: "'d world \<Rightarrow> nat" where
  "opens w = length (filter isOpen (log w))"

text \<open>The timers left when the timer of handle \<open>h\<close>, if there is one, is cleared.\<close>

definition cancelled :: "nat option \<Rightarrow> (nat \<times> real) list \<Rightarrow> (nat \<times> real) list" where
  "cancelled h ts = (case h of None \<Rightarrow> ts | Some t \<Rightarrow> filter (\<lambda>(i, d). i \<noteq> t) ts)"

text \<open>The state between the pipeline's destruction and the manager's, in \<open>provider_destroy\<close>.\<close>

definition pipelineDestroyed :: "'d world \<Rightarrow> 'd world" where
  "pipelineDestroyed w =
     (let w1 = does AwarenessDestroy (w\<lparr>prov := (prov w)\<lparr>p_destroyed := True\<rparr>\<rparr>)
      in case awarenessManager (prov w1) of
           None \<Rightarrow> w1
         | Some am \<Rightarrow>
             (let (am1, acts) = am_destroy am
              in (does_all acts w1)\<lparr>prov := (prov w1)\<lparr>awarenessManager := Some am1\<rparr>\<rparr>))"

section \<open>The reconnect loop\<close>

text \<open>
  The loop below runs the client against a transport that never opens. Its termination
  rests on what one failing \<^verbatim>\<open>connect\<close> does to the counter and the timers, which the
  lemmas before it establish.
\<close>

subsection \<open>What each step leaves alone\<close>

lemma does_simps [simp]:
  "conn (does a w) = conn w" "prov (does a w) = prov w" "timers (does a w) = timers w"
  "nextId (does a w) = nextId w" "log (does a w) = log w @ [a]"
  "closedHandlers (does a w) = closedHandlers w" "closedQueue (does a w) = closedQueue w"
  "docObservers (does a w) = docObservers w" "doc (does a w) = doc w"
  "awareness (does a w) = awareness w" "streamBuffer (does a w) = streamBuffer w"
  by (simp_all add: does_def)

lemma handleStatusChange_frame:
  assumes "status \<noteq> Connected"
  shows "conn (handleStatusChange X status w) = conn w"
    and "timers (handleStatusChange X status w) = timers w"
    and "nextId (handleStatusChange X status w) = nextId w"
    and "closedHandlers (handleStatusChange X status w) = closedHandlers w"
    and "closedQueue (handleStatusChange X status w) = closedQueue w"
  using assms by (simp_all add: handleStatusChange_def Let_def)

lemma reportStatus_frame:
  assumes "status \<noteq> Connected"
  shows "conn (reportStatus X status w) = conn w"
    and "timers (reportStatus X status w) = timers w"
    and "nextId (reportStatus X status w) = nextId w"
    and "closedHandlers (reportStatus X status w) = closedHandlers w"
    and "closedQueue (reportStatus X status w) = closedQueue w"
  using assms
  by (simp_all add: reportStatus_def Let_def handleStatusChange_frame split: option.split handler.split)

lemma reportStatus_log:
  assumes "status \<noteq> Connected"
  shows "log (reportStatus X status w) =
     log w @ StatusChange status #
       (case onStatusChange (conn w) of
          None \<Rightarrow> []
        | Some h \<Rightarrow> (if status = Disconnected \<and> connected (prov w) then [Emit (EvSynced False)] else [])
                     @ [Emit (EvStatus status)])"
  using assms
  by (simp add: reportStatus_def handleStatusChange_def Let_def split: option.split handler.split)

lemma reportError_frame:
  shows "conn (reportError e w) = conn w"
    and "timers (reportError e w) = timers w"
    and "nextId (reportError e w) = nextId w"
    and "prov (reportError e w) = prov w"
    and "closedHandlers (reportError e w) = closedHandlers w"
    and "closedQueue (reportError e w) = closedQueue w"
  by (simp_all add: reportError_def provider_handleError_def Let_def split: option.split handler.split)

lemma reportClose_frame:
  shows "conn (reportClose c r w) = conn w"
    and "timers (reportClose c r w) = timers w"
    and "nextId (reportClose c r w) = nextId w"
    and "prov (reportClose c r w) = prov w"
    and "closedHandlers (reportClose c r w) = closedHandlers w"
    and "closedQueue (reportClose c r w) = closedQueue w"
  by (simp_all add: reportClose_def provider_handleClose_def Let_def split: option.split handler.split)

lemma cleanup_frame:
  shows "conn (cleanup w) = (conn w)\<lparr>syncWriter := None, syncReader := None, syncStream := None, transport := None\<rparr>"
    and "timers (cleanup w) = timers w"
    and "nextId (cleanup w) = nextId w"
    and "prov (cleanup w) = prov w"
    and "closedHandlers (cleanup w) = closedHandlers w"
    and "closedQueue (cleanup w) = closedQueue w"
  by (simp_all add: cleanup_def Let_def)

lemma scheduleReconnect_gives_up:
  "real (reconnectAttempts (conn w)) \<ge> maxReconnectAttempts (conn w) \<Longrightarrow> scheduleReconnect X j w = w"
  by (simp add: scheduleReconnect_def)

lemma scheduleReconnect_arms:
  assumes "real (reconnectAttempts (conn w)) < maxReconnectAttempts (conn w)"
  shows "conn (scheduleReconnect X j w) =
           (conn w)\<lparr>reconnectAttempts := reconnectAttempts (conn w) + 1, reconnectTimeout := Some (nextId w)\<rparr>"
    and "timers (scheduleReconnect X j w) =
           timers w @ [(nextId w, min (reconnectBaseDelay (conn w) * 2 ^ reconnectAttempts (conn w) + j)
                                       (reconnectMaxDelay (conn w)))]"
    and "nextId (scheduleReconnect X j w) = nextId w + 1"
  using assms by (simp_all add: scheduleReconnect_def Let_def reportStatus_frame)

subsection \<open>What a failing open does\<close>

lemma opens_does: "opens (does a w) = opens w + (if isOpen a then 1 else 0)"
  by (simp add: opens_def)

lemma opens_cleanup: "opens (cleanup w) = opens w"
  by (simp add: opens_def cleanup_def Let_def does_def isOpen_def)

lemma opens_reportError: "opens (reportError e w) = opens w"
  by (simp add: opens_def reportError_def provider_handleError_def Let_def does_def isOpen_def
      split: option.split handler.split)

lemma opens_reportStatus: "status \<noteq> Connected \<Longrightarrow> opens (reportStatus X status w) = opens w"
  by (simp add: opens_def reportStatus_log isOpen_def split: option.split)

lemma opens_scheduleReconnect: "opens (scheduleReconnect X j w) = opens w"
  by (simp add: scheduleReconnect_def Let_def opens_def reportStatus_log isOpen_def split: option.split)

lemma opens_handleError: "opens (handleError X j e w) = opens w"
  by (simp add: handleError_def Let_def opens_scheduleReconnect opens_reportError opens_cleanup)

lemma handleError_conn:
  "conn (handleError X j e w) =
     (if \<not> destroyed (conn w) \<and> real (reconnectAttempts (conn w)) < maxReconnectAttempts (conn w)
      then (conn w)\<lparr>syncWriter := None, syncReader := None, syncStream := None, transport := None,
                    reconnectAttempts := reconnectAttempts (conn w) + 1,
                    reconnectTimeout := Some (nextId w)\<rparr>
      else (conn w)\<lparr>syncWriter := None, syncReader := None, syncStream := None, transport := None\<rparr>)"
  by (simp add: handleError_def Let_def reportError_frame cleanup_frame scheduleReconnect_arms
      scheduleReconnect_gives_up not_less)

lemma handleError_timers:
  "timers (handleError X j e w) =
     (if \<not> destroyed (conn w) \<and> real (reconnectAttempts (conn w)) < maxReconnectAttempts (conn w)
      then timers w @ [(nextId w, min (reconnectBaseDelay (conn w) * 2 ^ reconnectAttempts (conn w) + j)
                                       (reconnectMaxDelay (conn w)))]
      else timers w)"
  by (simp add: handleError_def Let_def reportError_frame cleanup_frame scheduleReconnect_arms
      scheduleReconnect_gives_up not_less)

text \<open>A failing connect.\<close>

lemma tryOpen_Fails:
  "\<exists>e w1. tryOpen (Fails f) w = (Some e, w1) \<and> opens w1 = opens w + 1 \<and> timers w1 = timers w
     \<and> nextId w1 = nextId w + 2
     \<and> destroyed (conn w1) = destroyed (conn w)
     \<and> reconnectAttempts (conn w1) = reconnectAttempts (conn w)
     \<and> maxReconnectAttempts (conn w1) = maxReconnectAttempts (conn w)
     \<and> reconnectBaseDelay (conn w1) = reconnectBaseDelay (conn w)
     \<and> reconnectMaxDelay (conn w1) = reconnectMaxDelay (conn w)"
  by (cases f) (simp_all add: tryOpen_def Let_def opens_def does_def isOpen_def)

lemma connect_Fails:
  assumes "\<not> destroyed (conn w)"
  shows "opens (snd (connect X True (Fails f) j w)) = opens w + 1"
    and "timers (snd (connect X True (Fails f) j w)) =
          (if real (reconnectAttempts (conn w)) < maxReconnectAttempts (conn w)
           then timers w @ [(nextId w + 2, min (reconnectBaseDelay (conn w) * 2 ^ reconnectAttempts (conn w) + j)
                                       (reconnectMaxDelay (conn w)))]
           else timers w)"
    and "reconnectAttempts (conn (snd (connect X True (Fails f) j w))) =
          (if real (reconnectAttempts (conn w)) < maxReconnectAttempts (conn w)
           then reconnectAttempts (conn w) + 1 else reconnectAttempts (conn w))"
    and "maxReconnectAttempts (conn (snd (connect X True (Fails f) j w))) = maxReconnectAttempts (conn w)"
    and "destroyed (conn (snd (connect X True (Fails f) j w))) = destroyed (conn w)"
proof -
  let ?w0 = "reportStatus X Connecting w"
  obtain e w1 where t: "tryOpen (Fails f) ?w0 = (Some e, w1)" and o: "opens w1 = opens ?w0 + 1"
    and ti: "timers w1 = timers ?w0" and n: "nextId w1 = nextId ?w0 + 2"
    and d: "destroyed (conn w1) = destroyed (conn ?w0)"
    and a: "reconnectAttempts (conn w1) = reconnectAttempts (conn ?w0)"
    and m: "maxReconnectAttempts (conn w1) = maxReconnectAttempts (conn ?w0)"
    and b: "reconnectBaseDelay (conn w1) = reconnectBaseDelay (conn ?w0)"
    and x: "reconnectMaxDelay (conn w1) = reconnectMaxDelay (conn ?w0)"
    using tryOpen_Fails [of f ?w0] by blast
  have c: "snd (connect X True (Fails f) j w) = handleError X j e w1"
    using assms t by (simp add: connect_def)
  show "opens (snd (connect X True (Fails f) j w)) = opens w + 1"
    by (simp add: c opens_handleError o opens_reportStatus)
  show "timers (snd (connect X True (Fails f) j w)) =
          (if real (reconnectAttempts (conn w)) < maxReconnectAttempts (conn w)
           then timers w @ [(nextId w + 2, min (reconnectBaseDelay (conn w) * 2 ^ reconnectAttempts (conn w) + j)
                                       (reconnectMaxDelay (conn w)))]
           else timers w)"
    using assms by (simp add: c handleError_timers ti n d a m b x reportStatus_frame)
  show "reconnectAttempts (conn (snd (connect X True (Fails f) j w))) =
          (if real (reconnectAttempts (conn w)) < maxReconnectAttempts (conn w)
           then reconnectAttempts (conn w) + 1 else reconnectAttempts (conn w))"
    using assms by (simp add: c handleError_conn d a m reportStatus_frame)
  show "maxReconnectAttempts (conn (snd (connect X True (Fails f) j w))) = maxReconnectAttempts (conn w)"
    by (simp add: c handleError_conn m reportStatus_frame)
  show "destroyed (conn (snd (connect X True (Fails f) j w))) = destroyed (conn w)"
    by (simp add: c handleError_conn d reportStatus_frame)
qed

lemma connect_destroyed: "destroyed (conn w) \<Longrightarrow> connect X s out j w = (Some Destroyed, w)"
  by (simp add: connect_def)

subsection \<open>A transport that never opens\<close>

text \<open>
  \<open>retryLoop\<close> lets the armed timers fire one after the other, the first one first, while
  every open fails: \<open>failure k\<close> is how the open fails and \<open>jitter k\<close> the jitter drawn
  when the attempt counter is \<open>k\<close>. It ends when no timer is armed; it always ends, since
  every firing either uses up a timer or moves the counter towards its maximum.
\<close>

lemma timerFires_destroyed:
  assumes "t \<in> fst ` set (timers w)" "destroyed (conn w)"
  shows "timerFires X s out j t w = w\<lparr>timers := filter (\<lambda>(i, d). i \<noteq> t) (timers w)\<rparr>"
  using assms by (simp add: timerFires_def connect_def)

lemma length_filter_less:
  assumes "t \<in> fst ` set ts"
  shows "length (filter (\<lambda>(i, d). i \<noteq> t) ts) < length ts"
proof -
  from assms obtain d where "(t, d) \<in> set ts" by auto
  then show ?thesis
    by (intro length_filter_less [where x = "(t, d)"]) auto
qed

definition retryMeasure :: "'d world \<Rightarrow> nat" where
  "retryMeasure w =
     nat \<lceil>maxReconnectAttempts (conn w) - real (reconnectAttempts (conn w))\<rceil> + length (timers w)"

lemma timerFires_measure:
  assumes "t \<in> fst ` set (timers w)"
  shows "retryMeasure (timerFires X True (Fails f) j t w) < retryMeasure w"
proof -
  let ?w = "w\<lparr>timers := filter (\<lambda>(i, d). i \<noteq> t) (timers w)\<rparr>"
  have less: "length (timers ?w) < length (timers w)"
    using assms by (simp add: length_filter_less)
  show ?thesis
  proof (cases "destroyed (conn w)")
    case True
    then show ?thesis
      using assms less by (simp add: timerFires_destroyed retryMeasure_def)
  next
    case False
    then have nd: "\<not> destroyed (conn ?w)" by simp
    have eq: "timerFires X True (Fails f) j t w = snd (connect X True (Fails f) j ?w)"
      using assms by (simp add: timerFires_def)
    show ?thesis
    proof (cases "real (reconnectAttempts (conn w)) < maxReconnectAttempts (conn w)")
      case True
      define x where "x = maxReconnectAttempts (conn w) - real (reconnectAttempts (conn w))"
      have pos: "0 < x" using True by (simp add: x_def)
      then have c2: "1 \<le> \<lceil>x\<rceil>" by simp
      have c1: "\<lceil>x - 1\<rceil> = \<lceil>x\<rceil> - 1" by (rule ceiling_diff_one)
      have "nat \<lceil>x - 1\<rceil> + 1 = nat \<lceil>x\<rceil>" unfolding c1 using c2 by linarith
      moreover have "maxReconnectAttempts (conn w) - real (reconnectAttempts (conn w) + 1) = x - 1"
        by (simp add: x_def)
      ultimately have "nat \<lceil>maxReconnectAttempts (conn w) - real (reconnectAttempts (conn w) + 1)\<rceil> + 1
                   = nat \<lceil>maxReconnectAttempts (conn w) - real (reconnectAttempts (conn w))\<rceil>"
        by (simp only: x_def)
      then show ?thesis
        using True less by (simp add: eq retryMeasure_def connect_Fails [OF nd] del: of_nat_Suc of_nat_add)
    next
      case False
      then show ?thesis
        using less by (simp add: eq retryMeasure_def connect_Fails [OF nd])
    qed
  qed
qed

function retryLoop :: "'d yjs \<Rightarrow> (nat \<Rightarrow> open_failure) \<Rightarrow> (nat \<Rightarrow> real) \<Rightarrow> 'd world \<Rightarrow> 'd world" where
  "retryLoop X failure jitter w =
     (case timers w of
        [] \<Rightarrow> w
      | (t, d) # rest \<Rightarrow>
          retryLoop X failure jitter
            (timerFires X True (Fails (failure (reconnectAttempts (conn w))))
               (jitter (reconnectAttempts (conn w))) t w))"
  by pat_completeness auto
termination
  by (relation "measure (\<lambda>(X, failure, jitter, w). retryMeasure w)")
    (auto simp add: timerFires_measure)

declare retryLoop.simps [simp del]

section \<open>The framing codec: properties\<close>

lemma and_255_nat: "(n::nat) AND 255 = n mod 256"
proof -
  have "(255::nat) = mask 8"
    by (simp add: mask_eq_exp_minus_1)
  then have "n AND 255 = take_bit 8 n"
    by (simp only: take_bit_eq_mask)
  then show ?thesis
    by (simp add: take_bit_eq_mod)
qed

lemma unat_u8: "n < 256 \<Longrightarrow> unat (u8 n) = n"
  by (simp add: u8_def unat_of_nat)

text \<open>The two header bytes of a payload of at most 65535 bytes read back as its length.\<close>

lemma header_value:
  assumes "n \<le> 65535"
  shows "push_bit 8 (unat (u8 (drop_bit 8 n AND 255))) OR unat (u8 (n AND 255)) = n"
proof -
  have high: "drop_bit 8 n < 256"
    using assms by (simp add: drop_bit_eq_div)
  have "unat (u8 (drop_bit 8 n AND 255)) = drop_bit 8 n"
    using high by (simp add: and_255_nat unat_u8)
  moreover have "unat (u8 (n AND 255)) = take_bit 8 n"
    by (simp add: and_255_nat unat_u8 take_bit_eq_mod)
  moreover have "push_bit 8 (drop_bit 8 n) OR take_bit 8 n
                   = push_bit 8 (drop_bit 8 n) + take_bit 8 n"
    by (rule disjunctive_add_eq_or [symmetric]) (auto simp: bit_eq_iff bit_simps)
  ultimately show ?thesis
    by (simp add: bits_ident)
qed

lemma frameMessage_too_large:
  "length p > 65535 \<Longrightarrow> frameMessage p = Inl (FrameTooLarge (length p))"
  by (simp add: frameMessage_def)

lemma frameMessage_fits:
  "length p \<le> 65535 \<Longrightarrow>
     frameMessage p = Inr (u8 (drop_bit 8 (length p) AND 255) # u8 (length p AND 255) # p)"
  by (simp add: frameMessage_def Let_def)

text \<open>
  \<^bold>\<open>C8.\<close> For every byte sequence \<open>p\<close> of at most 65535 bytes, \<^verbatim>\<open>frameMessage\<close> returns a
  frame, and \<^verbatim>\<open>readFramedMessages\<close> of that frame is the one message \<open>p\<close> with an empty
  remaining buffer.
\<close>

theorem C8_frame_roundtrip:
  assumes "length p \<le> 65535"
  shows "\<exists>f. frameMessage p = Inr f \<and> readFramedMessages f = ([p], [])"
proof -
  define h1 where "h1 = u8 (drop_bit 8 (length p) AND 255)"
  define h0 where "h0 = u8 (length p AND 255)"
  define f where "f = h1 # h0 # p"
  have framed: "frameMessage p = Inr f"
    using assms by (simp add: frameMessage_fits f_def h1_def h0_def)
  have len: "push_bit 8 (unat h1) OR unat h0 = length p"
    unfolding h1_def h0_def by (rule header_value [OF assms])
  have second: "readFramedLoop f (2 + length p) [p] = ([p], 2 + length p)"
    by (subst readFramedLoop.simps) (simp add: f_def)
  have first: "readFramedLoop f 0 [] = readFramedLoop f (2 + length p) [p]"
    by (subst readFramedLoop.simps) (simp add: f_def len slice_def)
  have loop: "readFramedLoop f 0 [] = ([p], 2 + length p)"
    by (simp only: first second)
  have "readFramedMessages f = ([p], [])"
    unfolding readFramedMessages_def loop by (simp add: f_def)
  with framed show ?thesis
    by blast
qed

theorem C8_frame_roundtrip_witness:
  "length [1, 2, 3 :: byte] \<le> 65535
   \<and> (\<exists>f. frameMessage [1, 2, 3] = Inr f \<and> readFramedMessages f = ([[1, 2, 3]], []))"
  using C8_frame_roundtrip [of "[1, 2, 3]"] by simp

section \<open>Sending on the stream: properties\<close>

lemma sendSyncMessage_resolves: "fst (sendSyncMessage p w) = None"
  by (simp add: sendSyncMessage_def)

text \<open>
  \<^bold>\<open>C1.\<close> A payload of 70000 bytes: \<^verbatim>\<open>frameMessage\<close> fails with the error for a frame that
  is too large, while \<^verbatim>\<open>sendSyncMessage\<close> of a manager that holds a transport and a stream
  writer does not fail. Its promise resolves, and it writes the 70000 bytes behind the
  header \<open>0x11 0x70\<close>, the low sixteen bits of the length (4464), leaving the manager as it
  was.
\<close>

theorem C1_oversize_send_is_written:
  "frameMessage (replicate 70000 0) = Inl (FrameTooLarge 70000)
   \<and> sendSyncMessage (replicate 70000 0)
        (w\<lparr>conn := (conn w)\<lparr>transport := Some t, syncWriter := Some s\<rparr>\<rparr>)
      = (None, does (StreamWrite (0x11 # 0x70 # replicate 70000 0))
                 (w\<lparr>conn := (conn w)\<lparr>transport := Some t, syncWriter := Some s\<rparr>\<rparr>))"
  by (simp add: frameMessage_def sendSyncMessage_def u8_def)

section \<open>The provider's message handler: properties\<close>

text \<open>
  The stream reader hands such a frame over: the two bytes \<open>0x00 0x00\<close> are a complete frame
  with an empty body, and with them the reader leaves the client as it was.
\<close>

lemma deliverSyncMessage_empty: "deliverSyncMessage X [] w = Inr w"
  by (simp add: deliverSyncMessage_def handleSyncMessage_def split: option.split handler.split)

lemma empty_frame_through_reader:
  assumes "streamBuffer w = []"
  shows "streamChunk X j [0x00, 0x00] w = w"
proof -
  have "processMessages X [0x00, 0x00] w = processMessages X [] w"
    by (subst processMessages.simps) (simp add: slice_def deliverSyncMessage_empty)
  also have "\<dots> = (None, [], w)"
    by (subst processMessages.simps) simp
  finally show ?thesis
    using assms by (simp add: streamChunk_def)
qed

text \<open>
  \<^bold>\<open>C10.\<close> On a frame of length zero \<^verbatim>\<open>handleSyncMessage\<close> returns at once: it raises
  nothing, and the state and the log of what the client did are the ones before the call,
  so nothing was dispatched and nothing was sent.
\<close>

theorem C10_empty_frame_ignored: "handleSyncMessage X [] w = Inr w"
  by (simp add: handleSyncMessage_def)

section \<open>The reconnect policy: properties\<close>

lemma opens_timers_update: "opens (w\<lparr>timers := ts\<rparr>) = opens w"
  by (simp add: opens_def)

lemma retryLoop_counts:
  assumes "\<not> destroyed (conn w)" "maxReconnectAttempts (conn w) = real n"
    and "reconnectAttempts (conn w) \<le> n" "timers w = [(t, d)]"
  shows "opens (retryLoop X failure jitter w) = opens w + (n - reconnectAttempts (conn w)) + 1
         \<and> timers (retryLoop X failure jitter w) = []"
  using assms
proof (induction "n - reconnectAttempts (conn w)" arbitrary: w t d)
  case 0
  let ?a = "reconnectAttempts (conn w)"
  let ?w = "w\<lparr>timers := []\<rparr>"
  let ?w' = "timerFires X True (Fails (failure ?a)) (jitter ?a) t w"
  have nd: "\<not> destroyed (conn ?w)" using 0 by simp
  have eq: "?w' = snd (connect X True (Fails (failure ?a)) (jitter ?a) ?w)"
    using 0 by (simp add: timerFires_def)
  have a: "?a = n" using 0 by simp
  have ge: "\<not> real (reconnectAttempts (conn ?w)) < maxReconnectAttempts (conn ?w)"
    using 0 a by simp
  have t': "timers ?w' = []"
    unfolding eq using ge by (simp add: connect_Fails(2) [OF nd])
  have o': "opens ?w' = opens w + 1"
    unfolding eq by (simp add: connect_Fails(1) [OF nd] opens_timers_update)
  have "retryLoop X failure jitter w = retryLoop X failure jitter ?w'"
    using 0 by (subst retryLoop.simps) simp
  also have "\<dots> = ?w'"
    using t' by (subst retryLoop.simps) simp
  finally show ?case using t' o' a by simp
next
  case (Suc k)
  let ?a = "reconnectAttempts (conn w)"
  let ?w = "w\<lparr>timers := []\<rparr>"
  let ?w' = "timerFires X True (Fails (failure ?a)) (jitter ?a) t w"
  have nd: "\<not> destroyed (conn ?w)" using Suc.prems by simp
  have eq: "?w' = snd (connect X True (Fails (failure ?a)) (jitter ?a) ?w)"
    using Suc.prems by (simp add: timerFires_def)
  have a: "?a < n" using Suc.hyps(2) by simp
  then have lt: "real ?a < maxReconnectAttempts (conn ?w)" using Suc.prems by simp
  obtain t' d' where t': "timers ?w' = [(t', d')]"
    using lt by (simp add: eq connect_Fails [OF nd])
  have o': "opens ?w' = opens w + 1"
    unfolding eq by (simp add: connect_Fails(1) [OF nd] opens_timers_update)
  have a': "reconnectAttempts (conn ?w') = ?a + 1"
    using lt by (simp add: eq connect_Fails [OF nd])
  have m': "maxReconnectAttempts (conn ?w') = real n" and d': "\<not> destroyed (conn ?w')"
    using Suc.prems by (simp_all add: eq connect_Fails [OF nd])
  have k: "k = n - reconnectAttempts (conn ?w')"
    using Suc.hyps(2) a' by simp
  have le: "reconnectAttempts (conn ?w') \<le> n" using a a' by simp
  have IH: "opens (retryLoop X failure jitter ?w') = opens ?w' + (n - reconnectAttempts (conn ?w')) + 1
         \<and> timers (retryLoop X failure jitter ?w') = []"
    by (rule Suc.hyps(1) [OF k d' m' le t'])
  have "retryLoop X failure jitter w = retryLoop X failure jitter ?w'"
    using Suc.prems by (subst retryLoop.simps) simp
  then show ?case using IH o' a' a by simp
qed

text \<open>
  The schedule over the reals, for a jitter given as a number in \<open>[0, 1000)\<close>: with the
  attempt counter \<open>k\<close> below the maximum, \<open>scheduleReconnect\<close> reports the status
  \<^verbatim>\<open>reconnecting\<close>, increments the counter and arms one timer, for
  \<open>min (baseDelay * 2 ^ k + jitter) maxDelay\<close>. This is a fact about the definition above, in
  which the delay is a real number and the jitter an argument; it says nothing about how the
  browser draws the jitter, and the bounds on the delay are those of the exact sum, which
  the rounded sum of the code can exceed (\<open>2 ^ 58 + 999\<close> is rounded to \<open>2 ^ 58 + 1024\<close>).
\<close>

lemma scheduleReconnect_over_reals:
  assumes "real (reconnectAttempts (conn w)) < maxReconnectAttempts (conn w)"
    and "0 \<le> jitter" and "jitter < 1000"
  shows "let k = reconnectAttempts (conn w);
             delay = min (reconnectBaseDelay (conn w) * 2 ^ k + jitter) (reconnectMaxDelay (conn w));
             w' = scheduleReconnect X jitter w
         in log w' = log w @ [StatusChange Reconnecting]
                       @ (case onStatusChange (conn w) of
                            None \<Rightarrow> [] | Some h \<Rightarrow> [Emit (EvStatus Reconnecting)])
                       @ [SetTimeout (nextId w) delay]
          \<and> conn w' = (conn w)\<lparr>reconnectAttempts := k + 1, reconnectTimeout := Some (nextId w)\<rparr>
          \<and> timers w' = timers w @ [(nextId w, delay)]
          \<and> min (reconnectBaseDelay (conn w) * 2 ^ k) (reconnectMaxDelay (conn w)) \<le> delay
          \<and> delay \<le> reconnectBaseDelay (conn w) * 2 ^ k + 1000
          \<and> delay \<le> reconnectMaxDelay (conn w)"
proof -
  have l: "log (scheduleReconnect X jitter w) = log w @ [StatusChange Reconnecting]
                       @ (case onStatusChange (conn w) of
                            None \<Rightarrow> [] | Some h \<Rightarrow> [Emit (EvStatus Reconnecting)])
                       @ [SetTimeout (nextId w)
                            (min (reconnectBaseDelay (conn w) * 2 ^ reconnectAttempts (conn w) + jitter)
                               (reconnectMaxDelay (conn w)))]"
    using assms(1)
    by (simp add: scheduleReconnect_def Let_def reportStatus_log reportStatus_frame split: option.split)
  show ?thesis
    unfolding Let_def
    using assms l by (simp add: scheduleReconnect_arms min_def)
qed

text \<open>
  \<^bold>\<open>C6.\<close> A manager that is not destroyed, with \<^verbatim>\<open>maxReconnectAttempts\<close> \<open>n\<close>, a counter of 0
  and no timer armed, on a transport whose open always fails: the first \<^verbatim>\<open>connect\<close> and the
  timers that follow it make exactly \<open>n + 1\<close> opens, and then no timer is armed, so nothing
  is left that would open again.
\<close>

theorem C6_reconnect_attempts:
  assumes "\<not> destroyed (conn w)" and "maxReconnectAttempts (conn w) = real n"
    and "reconnectAttempts (conn w) = 0" and "timers w = []"
  shows "let final = retryLoop X failure jitter
                       (snd (connect X True (Fails (failure 0)) (jitter 0) w))
         in opens final = opens w + n + 1 \<and> timers final = []"
proof -
  let ?w1 = "snd (connect X True (Fails (failure 0)) (jitter 0) w)"
  have o1: "opens ?w1 = opens w + 1"
    by (simp add: connect_Fails(1) [OF assms(1)])
  have d1: "\<not> destroyed (conn ?w1)" and m1: "maxReconnectAttempts (conn ?w1) = real n"
    using assms by (simp_all add: connect_Fails [OF assms(1)])
  show ?thesis
  proof (cases "n = 0")
    case True
    then have "timers ?w1 = []"
      using assms by (simp add: connect_Fails(2) [OF assms(1)])
    then have "retryLoop X failure jitter ?w1 = ?w1"
      by (subst retryLoop.simps) simp
    then show ?thesis
      using True o1 \<open>timers ?w1 = []\<close> by (simp add: Let_def)
  next
    case False
    then have lt: "real (reconnectAttempts (conn w)) < maxReconnectAttempts (conn w)"
      using assms by simp
    obtain t d where t1: "timers ?w1 = [(t, d)]"
      using lt assms(4) by (simp add: connect_Fails(2) [OF assms(1)])
    have a1: "reconnectAttempts (conn ?w1) = 1"
      using lt assms(3) by (simp add: connect_Fails(3) [OF assms(1)])
    have le: "reconnectAttempts (conn ?w1) \<le> n"
      using a1 False by simp
    have "opens (retryLoop X failure jitter ?w1) = opens ?w1 + (n - reconnectAttempts (conn ?w1)) + 1
          \<and> timers (retryLoop X failure jitter ?w1) = []"
      by (rule retryLoop_counts [OF d1 m1 le t1])
    then show ?thesis
      using o1 a1 False by (simp add: Let_def)
  qed
qed

theorem C6_reconnect_attempts_witness:
  "\<not> destroyed (conn (exampleProvider (Some False) (Some 3) (Some 10) (Some 100)))
   \<and> maxReconnectAttempts (conn (exampleProvider (Some False) (Some 3) (Some 10) (Some 100))) = real 3
   \<and> reconnectAttempts (conn (exampleProvider (Some False) (Some 3) (Some 10) (Some 100))) = 0
   \<and> timers (exampleProvider (Some False) (Some 3) (Some 10) (Some 100)) = []
   \<and> opens (retryLoop exampleYjs (\<lambda>k. ReadyRejects) (\<lambda>k. 0)
              (snd (connect exampleYjs True (Fails ReadyRejects) 0
                      (exampleProvider (Some False) (Some 3) (Some 10) (Some 100))))) = 4
   \<and> timers (retryLoop exampleYjs (\<lambda>k. ReadyRejects) (\<lambda>k. 0)
              (snd (connect exampleYjs True (Fails ReadyRejects) 0
                      (exampleProvider (Some False) (Some 3) (Some 10) (Some 100))))) = []"
  using C6_reconnect_attempts
    [of "exampleProvider (Some False) (Some 3) (Some 10) (Some 100)" 3 exampleYjs
        "\<lambda>k. ReadyRejects" "\<lambda>k. 0"]
  by (simp add: exampleProvider_def constructProvider_def newWebTransportProvider_def
      newConnectionManager_def exampleOptions_def orElse_def bindHandleDocUpdate_def docOn_def
      Let_def opens_def)

section \<open>The example client: its state after construction\<close>

lemmas run_defs =
  exampleProvider_def constructProvider_def provider_connect_def newWebTransportProvider_def
  newConnectionManager_def exampleOptions_def exampleAwareness_def exampleYjs_def orElse_def
  bindHandleDocUpdate_def docOn_def connect_def tryOpen_def reportStatus_def handleStatusChange_def
  startSync_def sendSyncMessage_def am_start_def startDatagramBroadcast_def broadcastFullState_def
  broadcastStateStream_def newAwarenessManager_def encodeAwarenessMessage_def does_def Let_def

lemma exampleProvider_fields:
  "conn (exampleProvider None None None None) =
     \<lparr>url = ''https://example.org'', roomName = ''room'', transport = Some 2,
      syncStream = Some 3, syncWriter = Some 3, syncReader = Some 3,
      reconnectAttempts = 0, maxReconnectAttempts = 10,
      reconnectBaseDelay = 1000, reconnectMaxDelay = 30000,
      reconnectTimeout = None, destroyed = False,
      onStatusChange = Some ProviderMethod,
      onSyncMessage = Some ProviderMethod, onDatagram = Some ProviderMethod,
      onError = Some ProviderMethod, onClose = Some ProviderMethod\<rparr>"
  "connected (prov (exampleProvider None None None None))"
  "\<not> synced (prov (exampleProvider None None None None))"
  "\<not> p_destroyed (prov (exampleProvider None None None None))"
  "docObservers (exampleProvider None None None None) = [BoundHandleDocUpdate 1]"
  "nextId (exampleProvider None None None None) = 5"
  "timers (exampleProvider None None None None) = []"
  "closedHandlers (exampleProvider None None None None) = [2]"
  "closedQueue (exampleProvider None None None None) = []"
  by (simp_all add: run_defs)

lemma syncedProvider_fields:
  "onStatusChange (conn syncedProvider) = Some ProviderMethod"
  "connected (prov syncedProvider)"
  "synced (prov syncedProvider)"
  "doc syncedProvider = [[5, 6]]"
  by (simp_all add: syncedProvider_def streamChunk_def processMessages.simps deliverSyncMessage_def
      handleSyncMessage_def handleSyncStep2_def docEmitUpdate_def runListener_def handleDocUpdate_def
      does_all_def slice_def exampleProvider_fields run_defs)

section \<open>Local document updates: properties\<close>

lemma handleDocUpdate_own_origin: "handleDocUpdate X update ThisProvider w = w"
  by (simp add: handleDocUpdate_def)

lemma handleDocUpdate_not_connected:
  "origin \<noteq> ThisProvider \<Longrightarrow> \<not> connected (prov w) \<Longrightarrow>
     handleDocUpdate X update origin w = does (Console ''Queuing update (not connected)'') w"
  by (simp add: handleDocUpdate_def)

lemma handleDocUpdate_connected:
  "origin \<noteq> ThisProvider \<Longrightarrow> connected (prov w) \<Longrightarrow>
     handleDocUpdate X update origin w
       = snd (sendSyncMessage (writeVarUint X 2 @ writeVarUint8Array X update) w)"
  by (simp add: handleDocUpdate_def)

lemma handleDocUpdate_without_writer:
  "origin \<noteq> ThisProvider \<Longrightarrow> connected (prov w) \<Longrightarrow> syncWriter (conn w) = None \<Longrightarrow>
     handleDocUpdate X update origin w = does (Console ''Cannot send: sync stream not open'') w"
  by (simp add: handleDocUpdate_def sendSyncMessage_def)

lemma sendSyncMessage_writes:
  "syncWriter (conn w) \<noteq> None \<Longrightarrow> length data = n \<Longrightarrow>
     sendSyncMessage data w
       = (None, does (StreamWrite (u8 (drop_bit 8 n AND 255) # u8 (n AND 255) # data)) w)"
  by (auto simp add: sendSyncMessage_def)

lemma lib0_writeVarUint_small: "n \<le> 127 \<Longrightarrow> lib0_writeVarUint n = [u8 (127 AND n)]"
  by (subst lib0_writeVarUint.simps) simp

lemma lib0_writeVarUint_nonempty: "lib0_writeVarUint n \<noteq> []"
  by (subst lib0_writeVarUint.simps) simp

lemma lib0_update_message_longer:
  "length (lib0_writeVarUint 2 @ lib0_writeVarUint8Array update) > length (encodeUpdate update)"
proof -
  have "length (lib0_writeVarUint 2) = 1"
    by (simp add: lib0_writeVarUint_small)
  moreover have "length (lib0_writeVarUint (length update)) \<ge> 1"
    using lib0_writeVarUint_nonempty [of "length update"]
    by (cases "lib0_writeVarUint (length update)") simp_all
  ultimately show ?thesis
    by (simp add: lib0_writeVarUint8Array_def encodeUpdate_def lib0_writeVarUint_nonempty)
qed

text \<open>
  An update applied with the provider as its origin is not sent back: the listener returns
  at once. And the message \<^verbatim>\<open>handleDocUpdate\<close> sends for the update \<open>[1, 2, 3]\<close>, received by a
  provider of the same code: \<^verbatim>\<open>handleRemoteUpdate\<close> hands all that follows the type byte, the
  length byte included, to \<^verbatim>\<open>Y.applyUpdate\<close>, whatever that makes of it (it may throw).
\<close>

lemma runListener_own_origin: "runListener X update ThisProvider l w = w"
  by (cases l) (simp_all add: runListener_def handleDocUpdate_def)

lemma docEmitUpdate_own_origin: "docEmitUpdate X update ThisProvider w = w"
proof -
  have "fold (runListener X update ThisProvider) ls w = w" for ls
    by (induction ls) (simp_all add: runListener_own_origin)
  then show ?thesis
    by (simp add: docEmitUpdate_def)
qed

lemma own_update_message_is_misread:
  "handleSyncMessage X [0x02, 0x03, 0x01, 0x02, 0x03] w
     = (case applyUpdate X [0x03, 0x01, 0x02, 0x03] (doc w) of
          None \<Rightarrow> Inl DecodeError
        | Some d \<Rightarrow> Inr (w\<lparr>doc := d\<rparr>))"
  by (simp add: handleSyncMessage_def handleRemoteUpdate_def docEmitUpdate_own_origin
      split: option.split)

text \<open>
  \<^bold>\<open>C2.\<close> With the encoders of \<^verbatim>\<open>lib0\<close>, a provider that is connected and whose manager holds
  the stream writer answers the local update \<open>[1, 2, 3]\<close> of another origin with one write
  on the stream: the frame of the message \<open>[0x02, 0x03, 0x01, 0x02, 0x03]\<close>. After the type
  byte comes the length of the update and only then the update, whereas \<^verbatim>\<open>encodeUpdate\<close> of
  the codec gives \<open>[0x02, 0x01, 0x02, 0x03]\<close>.
\<close>

theorem C2_update_message_has_length_prefix:
  "handleDocUpdate (X\<lparr>writeVarUint := lib0_writeVarUint, writeVarUint8Array := lib0_writeVarUint8Array\<rparr>)
      [1, 2, 3] OtherOrigin
      (w\<lparr>prov := (prov w)\<lparr>connected := True\<rparr>, conn := (conn w)\<lparr>syncWriter := Some s\<rparr>\<rparr>)
    = does (StreamWrite [0x00, 0x05, 0x02, 0x03, 0x01, 0x02, 0x03])
        (w\<lparr>prov := (prov w)\<lparr>connected := True\<rparr>, conn := (conn w)\<lparr>syncWriter := Some s\<rparr>\<rparr>)
   \<and> encodeUpdate [1, 2, 3] = [0x02, 0x01, 0x02, 0x03]"
proof -
  let ?X = "X\<lparr>writeVarUint := lib0_writeVarUint, writeVarUint8Array := lib0_writeVarUint8Array\<rparr>"
  let ?w = "w\<lparr>prov := (prov w)\<lparr>connected := True\<rparr>, conn := (conn w)\<lparr>syncWriter := Some s\<rparr>\<rparr>"
  have three: "length [1, 2, 3 :: byte] = 3"
    by simp
  have body: "lib0_writeVarUint8Array [1, 2, 3] = [0x03, 0x01, 0x02, 0x03]"
    unfolding lib0_writeVarUint8Array_def three by (simp add: lib0_writeVarUint_small u8_def)
  have tag: "lib0_writeVarUint 2 = [0x02]"
    by (simp add: lib0_writeVarUint_small u8_def)
  have message: "writeVarUint ?X 2 @ writeVarUint8Array ?X [1, 2, 3] = [0x02, 0x03, 0x01, 0x02, 0x03]"
    by (simp add: tag body)
  have five: "length [0x02, 0x03, 0x01, 0x02, 0x03 :: byte] = 5"
    by simp
  have "sendSyncMessage [0x02, 0x03, 0x01, 0x02, 0x03] ?w
          = (None, does (StreamWrite [0x00, 0x05, 0x02, 0x03, 0x01, 0x02, 0x03]) ?w)"
    by (subst sendSyncMessage_writes [where n = 5, OF _ five]) (simp_all add: u8_def)
  then have "handleDocUpdate ?X [1, 2, 3] OtherOrigin ?w
          = does (StreamWrite [0x00, 0x05, 0x02, 0x03, 0x01, 0x02, 0x03]) ?w"
    unfolding handleDocUpdate_def message by simp
  then show ?thesis
    by (simp add: encodeUpdate_def)
qed

section \<open>Losing the connection: properties\<close>

subsection \<open>What the error path and the close path log and do to the provider\<close>

lemma cleanup_log:
  "log (cleanup w) = log w @ (if syncWriter (conn w) \<noteq> None then [ReleaseWriter] else [])
                          @ (if syncReader (conn w) \<noteq> None then [ReleaseReader] else [])"
  by (simp add: cleanup_def Let_def)

lemma reportError_log:
  "log (reportError e w) = log w @ ErrorReport e #
     (case onError (conn w) of None \<Rightarrow> [] | Some h \<Rightarrow> [Emit (EvConnectionError e)])"
  by (simp add: reportError_def provider_handleError_def Let_def split: option.split handler.split)

lemma reportClose_log:
  "log (reportClose c r w) = log w @ CloseReport c r #
     (case onClose (conn w) of None \<Rightarrow> [] | Some h \<Rightarrow> [Emit (EvConnectionClose c r)])"
  by (simp add: reportClose_def provider_handleClose_def Let_def split: option.split handler.split)

lemma reportStatus_prov:
  assumes "status \<noteq> Connected"
  shows "prov (reportStatus X status w) =
     (case onStatusChange (conn w) of
        None \<Rightarrow> prov w
      | Some h \<Rightarrow> (prov w)\<lparr>connected := False,
                            synced := (if status = Disconnected \<and> connected (prov w) then False
                                       else synced (prov w))\<rparr>)"
  using assms
  by (simp add: reportStatus_def handleStatusChange_def Let_def split: option.split handler.split)

lemma scheduleReconnect_log:
  "log (scheduleReconnect X j w) = log w @
     (if real (reconnectAttempts (conn w)) < maxReconnectAttempts (conn w)
      then [StatusChange Reconnecting]
           @ (case onStatusChange (conn w) of None \<Rightarrow> [] | Some h \<Rightarrow> [Emit (EvStatus Reconnecting)])
           @ [SetTimeout (nextId w)
                (min (reconnectBaseDelay (conn w) * 2 ^ reconnectAttempts (conn w) + j)
                     (reconnectMaxDelay (conn w)))]
      else [])"
  by (simp add: scheduleReconnect_def Let_def reportStatus_log reportStatus_frame split: option.split)

lemma scheduleReconnect_prov:
  "prov (scheduleReconnect X j w) =
     (if real (reconnectAttempts (conn w)) < maxReconnectAttempts (conn w)
      then (case onStatusChange (conn w) of
              None \<Rightarrow> prov w | Some h \<Rightarrow> (prov w)\<lparr>connected := False\<rparr>)
      else prov w)"
  by (simp add: scheduleReconnect_def Let_def reportStatus_prov split: option.split)

lemma handleError_log:
  "log (handleError X j e w) = log w
     @ (if syncWriter (conn w) \<noteq> None then [ReleaseWriter] else [])
     @ (if syncReader (conn w) \<noteq> None then [ReleaseReader] else [])
     @ ErrorReport e # (case onError (conn w) of None \<Rightarrow> [] | Some h \<Rightarrow> [Emit (EvConnectionError e)])
     @ (if \<not> destroyed (conn w) \<and> real (reconnectAttempts (conn w)) < maxReconnectAttempts (conn w)
        then [StatusChange Reconnecting]
           @ (case onStatusChange (conn w) of None \<Rightarrow> [] | Some h \<Rightarrow> [Emit (EvStatus Reconnecting)])
           @ [SetTimeout (nextId w)
                (min (reconnectBaseDelay (conn w) * 2 ^ reconnectAttempts (conn w) + j)
                     (reconnectMaxDelay (conn w)))]
        else [])"
  by (simp add: handleError_def Let_def scheduleReconnect_log reportError_log reportError_frame
      cleanup_log cleanup_frame)

lemma handleError_prov:
  "prov (handleError X j e w) =
     (if \<not> destroyed (conn w) \<and> real (reconnectAttempts (conn w)) < maxReconnectAttempts (conn w)
      then (case onStatusChange (conn w) of
              None \<Rightarrow> prov w | Some h \<Rightarrow> (prov w)\<lparr>connected := False\<rparr>)
      else prov w)"
  by (simp add: handleError_def Let_def scheduleReconnect_prov reportError_frame cleanup_frame
      split: option.split)

lemma handleClose_log:
  "log (handleClose X j info w) = log w
     @ (if syncWriter (conn w) \<noteq> None then [ReleaseWriter] else [])
     @ (if syncReader (conn w) \<noteq> None then [ReleaseReader] else [])
     @ CloseReport (orElse (closeCode info) 0) (orElse (reason info) []) #
       (case onClose (conn w) of
          None \<Rightarrow> []
        | Some h \<Rightarrow> [Emit (EvConnectionClose (orElse (closeCode info) 0) (orElse (reason info) []))])
     @ StatusChange Disconnected #
       (case onStatusChange (conn w) of
          None \<Rightarrow> []
        | Some h \<Rightarrow> (if connected (prov w) then [Emit (EvSynced False)] else [])
                     @ [Emit (EvStatus Disconnected)])
     @ (if \<not> destroyed (conn w) \<and> real (reconnectAttempts (conn w)) < maxReconnectAttempts (conn w)
        then [StatusChange Reconnecting]
           @ (case onStatusChange (conn w) of None \<Rightarrow> [] | Some h \<Rightarrow> [Emit (EvStatus Reconnecting)])
           @ [SetTimeout (nextId w)
                (min (reconnectBaseDelay (conn w) * 2 ^ reconnectAttempts (conn w) + j)
                     (reconnectMaxDelay (conn w)))]
        else [])"
  by (simp add: handleClose_def Let_def scheduleReconnect_log reportStatus_log reportStatus_frame
      reportClose_log reportClose_frame cleanup_log cleanup_frame)

lemma handleClose_prov:
  "prov (handleClose X j info w) =
     (case onStatusChange (conn w) of
        None \<Rightarrow> prov w
      | Some h \<Rightarrow> (prov w)\<lparr>connected := False,
                            synced := (if connected (prov w) then False else synced (prov w))\<rparr>)"
  by (simp add: handleClose_def Let_def scheduleReconnect_prov reportStatus_prov reportStatus_frame
      reportClose_frame cleanup_frame split: option.split)

text \<open>
  The close path: a manager bound to a connected provider reports \<^verbatim>\<open>disconnected\<close>, and the
  provider clears \<^verbatim>\<open>_synced\<close> and emits \<^verbatim>\<open>synced(false)\<close>.
\<close>

lemma handleClose_reports_and_unsyncs:
  assumes "onStatusChange (conn w) = Some ProviderMethod" and "connected (prov w)"
  shows "StatusChange Disconnected \<in> set (drop (length (log w)) (log (handleClose X j info w)))"
    and "\<not> synced (prov (handleClose X j info w))"
    and "Emit (EvSynced False) \<in> set (drop (length (log w)) (log (handleClose X j info w)))"
  using assms by (simp_all add: handleClose_log handleClose_prov)

text \<open>
  Once the attempts are used up (or the manager is destroyed) the error path reports no
  status at all: the provider still counts itself connected, while the manager holds
  neither transport nor writer.
\<close>

lemma handleError_exhausted_keeps_connected:
  assumes "destroyed (conn w) \<or> maxReconnectAttempts (conn w) \<le> real (reconnectAttempts (conn w))"
  shows "prov (handleError X j e w) = prov w"
    and "transport (conn (handleError X j e w)) = None"
    and "syncWriter (conn (handleError X j e w)) = None"
  using assms by (auto simp add: handleError_prov handleError_conn)

text \<open>
  A close that follows the error does not clear \<^verbatim>\<open>_synced\<close> either: by then the provider no
  longer counts itself connected, and it clears the flag only on leaving that state.
\<close>

lemma close_after_error_keeps_synced:
  assumes "onStatusChange (conn w) = Some ProviderMethod" and "synced (prov w)"
    and "\<not> destroyed (conn w)"
    and "real (reconnectAttempts (conn w)) < maxReconnectAttempts (conn w)"
  shows "synced (prov (handleClose X j' info (handleError X j e w)))"
  using assms by (simp add: handleClose_prov handleError_prov handleError_conn)

text \<open>The two events that take the error path.\<close>

lemma error_events_take_error_path:
  shows "\<not> destroyed (conn w) \<Longrightarrow> streamReadFails X j e w = handleError X j e w"
    and "t \<in> set (closedHandlers w) \<Longrightarrow>
           transportFailed X j t e w
             = handleError X j e (w\<lparr>closedHandlers := removeAll t (closedHandlers w)\<rparr>)"
  by (simp_all add: streamReadFails_def transportFailed_def)

text \<open>
  \<^bold>\<open>C3.\<close> The error path, which a failing read of the stream and a rejected \<^verbatim>\<open>closed\<close>
  promise take: with the manager bound to a provider that is connected and synced,
  \<^verbatim>\<open>handleError\<close> reports no status \<^verbatim>\<open>disconnected\<close>, the provider emits no \<^verbatim>\<open>synced(false)\<close>,
  and \<^verbatim>\<open>_synced\<close> is still true afterwards.
\<close>

theorem C3_error_path_keeps_synced:
  assumes "onStatusChange (conn w) = Some ProviderMethod"
    and "connected (prov w)" and "synced (prov w)"
  shows "synced (prov (handleError X j e w))
         \<and> StatusChange Disconnected \<notin> set (drop (length (log w)) (log (handleError X j e w)))
         \<and> Emit (EvSynced False) \<notin> set (drop (length (log w)) (log (handleError X j e w)))"
  using assms
  by (simp add: handleError_log handleError_prov split: option.split)

theorem C3_error_path_keeps_synced_witness:
  "onStatusChange (conn syncedProvider) = Some ProviderMethod
   \<and> connected (prov syncedProvider) \<and> synced (prov syncedProvider)
   \<and> synced (prov (handleError exampleYjs 250 (Transport ''read'') syncedProvider))
   \<and> StatusChange Disconnected
        \<notin> set (drop (length (log syncedProvider))
                 (log (handleError exampleYjs 250 (Transport ''read'') syncedProvider)))
   \<and> Emit (EvSynced False)
        \<notin> set (drop (length (log syncedProvider))
                 (log (handleError exampleYjs 250 (Transport ''read'') syncedProvider)))"
  using C3_error_path_keeps_synced [of syncedProvider exampleYjs 250 "Transport ''read''"]
  by (simp add: syncedProvider_fields)

section \<open>disconnect: properties\<close>

lemma transportClose_frame:
  shows "conn (transportClose t c r w) = conn w"
    and "prov (transportClose t c r w) = prov w"
    and "timers (transportClose t c r w) = timers w"
    and "nextId (transportClose t c r w) = nextId w"
    and "docObservers (transportClose t c r w) = docObservers w"
    and "log (transportClose t c r w) = log w @ [TransportClose t c r]"
    and "closedQueue (transportClose t c r w) =
           (if t \<in> set (closedHandlers w)
            then closedQueue w @ [\<lparr>closeCode = Some c, reason = Some r\<rparr>] else closedQueue w)"
  by (simp_all add: transportClose_def Let_def)

lemma handleStatusChange_docObservers:
  "status \<noteq> Connected \<Longrightarrow> docObservers (handleStatusChange X status w) = docObservers w"
  by (simp add: handleStatusChange_def Let_def)

lemma reportStatus_docObservers:
  "status \<noteq> Connected \<Longrightarrow> docObservers (reportStatus X status w) = docObservers w"
  by (simp add: reportStatus_def Let_def handleStatusChange_docObservers split: option.split handler.split)

lemma cleanup_docObservers: "docObservers (cleanup w) = docObservers w"
  by (simp add: cleanup_def Let_def)


lemma disconnect_conn:
  "conn (disconnect X w) =
     (conn w)\<lparr>reconnectTimeout := None, syncWriter := None, syncReader := None,
              syncStream := None, transport := None\<rparr>"
  by (simp add: disconnect_def Let_def reportStatus_frame cleanup_frame transportClose_frame
      split: option.split)

lemma disconnect_timers:
  "timers (disconnect X w) = cancelled (reconnectTimeout (conn w)) (timers w)"
  by (simp add: disconnect_def Let_def reportStatus_frame cleanup_frame transportClose_frame
      cancelled_def split: option.split)

lemma disconnect_nextId: "nextId (disconnect X w) = nextId w"
  by (simp add: disconnect_def Let_def reportStatus_frame cleanup_frame transportClose_frame
      split: option.split)

lemma disconnect_docObservers: "docObservers (disconnect X w) = docObservers w"
  by (simp add: disconnect_def Let_def reportStatus_docObservers cleanup_docObservers transportClose_frame
      split: option.split)

lemma disconnect_closedQueue:
  "closedQueue (disconnect X w) =
     (case transport (conn w) of
        None \<Rightarrow> closedQueue w
      | Some t \<Rightarrow> if t \<in> set (closedHandlers w)
                  then closedQueue w @ [\<lparr>closeCode = Some 1000, reason = Some ''Client disconnect''\<rparr>]
                  else closedQueue w)"
  by (auto simp add: disconnect_def Let_def reportStatus_frame cleanup_frame transportClose_frame
      split: option.split)

lemma disconnect_log:
  "log (disconnect X w) = log w
     @ (case reconnectTimeout (conn w) of None \<Rightarrow> [] | Some t \<Rightarrow> [ClearTimeout t])
     @ (case transport (conn w) of
          None \<Rightarrow> [] | Some t \<Rightarrow> [TransportClose t 1000 ''Client disconnect''])
     @ (if syncWriter (conn w) \<noteq> None then [ReleaseWriter] else [])
     @ (if syncReader (conn w) \<noteq> None then [ReleaseReader] else [])
     @ StatusChange Disconnected #
       (case onStatusChange (conn w) of
          None \<Rightarrow> []
        | Some h \<Rightarrow> (if connected (prov w) then [Emit (EvSynced False)] else [])
                     @ [Emit (EvStatus Disconnected)])"
  by (simp add: disconnect_def Let_def reportStatus_log reportStatus_frame cleanup_log cleanup_frame
      transportClose_frame split: option.split)

lemma disconnect_prov:
  "prov (disconnect X w) =
     (case onStatusChange (conn w) of
        None \<Rightarrow> prov w
      | Some h \<Rightarrow> (prov w)\<lparr>connected := False,
                            synced := (if connected (prov w) then False else synced (prov w))\<rparr>)"
  by (simp add: disconnect_def Let_def reportStatus_prov cleanup_frame transportClose_frame
      split: option.split)

text \<open>
  What \<^verbatim>\<open>disconnect\<close> does itself: it clears the timer it has the handle of, closes the
  transport with code 1000 and the reason \<^verbatim>\<open>Client disconnect\<close>, reports \<^verbatim>\<open>disconnected\<close> and
  schedules nothing.
\<close>

lemma disconnect_itself:
  assumes "transport (conn w) = Some t"
  shows "timers (disconnect X w) = cancelled (reconnectTimeout (conn w)) (timers w)"
    and "TransportClose t 1000 ''Client disconnect'' \<in> set (drop (length (log w)) (log (disconnect X w)))"
    and "StatusChange Disconnected \<in> set (drop (length (log w)) (log (disconnect X w)))"
    and "StatusChange Reconnecting \<notin> set (drop (length (log w)) (log (disconnect X w)))"
  using assms by (simp_all add: disconnect_timers disconnect_log split: option.split)

lemma handleClose_conn:
  "conn (handleClose X j info w) =
     (if \<not> destroyed (conn w) \<and> real (reconnectAttempts (conn w)) < maxReconnectAttempts (conn w)
      then (conn w)\<lparr>syncWriter := None, syncReader := None, syncStream := None, transport := None,
                    reconnectAttempts := reconnectAttempts (conn w) + 1,
                    reconnectTimeout := Some (nextId w)\<rparr>
      else (conn w)\<lparr>syncWriter := None, syncReader := None, syncStream := None, transport := None\<rparr>)"
  by (simp add: handleClose_def Let_def reportClose_frame reportStatus_frame cleanup_frame
      scheduleReconnect_arms scheduleReconnect_gives_up not_less)

lemma handleClose_timers:
  "timers (handleClose X j info w) =
     (if \<not> destroyed (conn w) \<and> real (reconnectAttempts (conn w)) < maxReconnectAttempts (conn w)
      then timers w @ [(nextId w, min (reconnectBaseDelay (conn w) * 2 ^ reconnectAttempts (conn w) + j)
                                       (reconnectMaxDelay (conn w)))]
      else timers w)"
  by (simp add: handleClose_def Let_def reportClose_frame reportStatus_frame cleanup_frame
      scheduleReconnect_arms scheduleReconnect_gives_up not_less)

text \<open>
  \<^bold>\<open>C4.\<close> A manager that is not destroyed, has attempts left and holds a transport on whose
  \<^verbatim>\<open>closed\<close> promise \<^verbatim>\<open>connect\<close> has installed its callbacks: \<^verbatim>\<open>disconnect\<close> closes the
  transport, the promise resolves, and the callback then runs \<^verbatim>\<open>handleClose\<close>, which reports
  \<^verbatim>\<open>reconnecting\<close> and arms a new reconnect timer.
\<close>

theorem C4_disconnect_then_reconnect:
  assumes "transport (conn w) = Some t" and "t \<in> set (closedHandlers w)"
    and "closedQueue w = []" and "\<not> destroyed (conn w)"
    and "real (reconnectAttempts (conn w)) < maxReconnectAttempts (conn w)"
  shows "timers (closedCallback X j (disconnect X w))
           = cancelled (reconnectTimeout (conn w)) (timers w)
               @ [(nextId w, min (reconnectBaseDelay (conn w) * 2 ^ reconnectAttempts (conn w) + j)
                                 (reconnectMaxDelay (conn w)))]
         \<and> reconnectTimeout (conn (closedCallback X j (disconnect X w))) = Some (nextId w)
         \<and> StatusChange Reconnecting
             \<in> set (drop (length (log (disconnect X w))) (log (closedCallback X j (disconnect X w))))"
proof -
  let ?w1 = "disconnect X w"
  let ?info = "\<lparr>closeCode = Some 1000, reason = Some ''Client disconnect''\<rparr>"
  have q: "closedQueue ?w1 = [?info]"
    using assms by (simp add: disconnect_closedQueue)
  then have cb: "closedCallback X j ?w1 = handleClose X j ?info (?w1\<lparr>closedQueue := []\<rparr>)"
    by (simp add: closedCallback_def)
  show ?thesis
    unfolding cb using assms
    by (simp add: handleClose_timers handleClose_conn handleClose_log
        disconnect_conn disconnect_timers disconnect_nextId split: option.split)
qed

theorem C4_disconnect_then_reconnect_witness:
  "transport (conn (exampleProvider None None None None)) = Some 2
   \<and> 2 \<in> set (closedHandlers (exampleProvider None None None None))
   \<and> closedQueue (exampleProvider None None None None) = []
   \<and> \<not> destroyed (conn (exampleProvider None None None None))
   \<and> real (reconnectAttempts (conn (exampleProvider None None None None)))
        < maxReconnectAttempts (conn (exampleProvider None None None None))
   \<and> timers (closedCallback exampleYjs 250
               (disconnect exampleYjs (exampleProvider None None None None))) = [(5, 1250)]"
  using C4_disconnect_then_reconnect [of "exampleProvider None None None None" 2 exampleYjs 250]
  by (simp add: exampleProvider_fields cancelled_def)

section \<open>Destroying the provider: properties\<close>

lemma destroy_frame:
  shows "docObservers (destroy X w) = docObservers w"
    and "nextId (destroy X w) = nextId w"
  by (simp_all add: destroy_def disconnect_docObservers disconnect_nextId)

lemma destroy_prov:
  "prov (destroy X w) =
     (case onStatusChange (conn w) of
        None \<Rightarrow> prov w
      | Some h \<Rightarrow> (prov w)\<lparr>connected := False,
                            synced := (if connected (prov w) then False else synced (prov w))\<rparr>)"
  by (simp add: destroy_def disconnect_prov split: option.split)

lemma does_all_simps [simp]:
  "conn (does_all as w) = conn w" "prov (does_all as w) = prov w" "timers (does_all as w) = timers w"
  "nextId (does_all as w) = nextId w" "log (does_all as w) = log w @ as"
  "docObservers (does_all as w) = docObservers w"
  by (simp_all add: does_all_def)

lemma pipelineDestroyed_frame:
  shows "docObservers (pipelineDestroyed w) = docObservers w"
    and "nextId (pipelineDestroyed w) = nextId w"
    and "conn (pipelineDestroyed w) = conn w"
    and "p_destroyed (prov (pipelineDestroyed w))"
    and "connected (prov (pipelineDestroyed w)) = connected (prov w)"
  by (simp_all add: pipelineDestroyed_def Let_def split: option.split prod.split)

lemma provider_destroy_unfold:
  "\<not> p_destroyed (prov w) \<Longrightarrow>
     provider_destroy X w =
       does ObservableDestroy
         (docOff (BoundHandleDocUpdate (nextId w))
            ((destroy X (pipelineDestroyed w))\<lparr>nextId := nextId w + 1\<rparr>))"
  by (simp add: provider_destroy_def pipelineDestroyed_def Let_def bindHandleDocUpdate_def
      destroy_frame split: option.split prod.split)

lemma provider_destroy_docObservers:
  "\<not> p_destroyed (prov w) \<Longrightarrow>
     docObservers (provider_destroy X w)
       = removeAll (BoundHandleDocUpdate (nextId w)) (docObservers w)"
  by (simp add: provider_destroy_unfold docOff_def destroy_frame pipelineDestroyed_frame)

lemma provider_destroy_keeps_listeners:
  "\<not> p_destroyed (prov w) \<Longrightarrow> l \<in> set (docObservers w) \<Longrightarrow>
   l \<noteq> BoundHandleDocUpdate (nextId w) \<Longrightarrow> l \<in> set (docObservers (provider_destroy X w))"
  by (simp add: provider_destroy_docObservers)

lemma provider_destroy_flags:
  assumes "\<not> p_destroyed (prov w)"
  shows "p_destroyed (prov (provider_destroy X w))"
    and "onStatusChange (conn w) \<noteq> None \<Longrightarrow> \<not> connected (prov (provider_destroy X w))"
  using assms
  by (auto simp add: provider_destroy_unfold docOff_def destroy_prov pipelineDestroyed_frame
      split: option.split)

lemma provider_destroy_idempotent:
  "provider_destroy X (provider_destroy X w) = provider_destroy X w"
proof (cases "p_destroyed (prov w)")
  case True
  then show ?thesis by (simp add: provider_destroy_def)
next
  case False
  then have "p_destroyed (prov (provider_destroy X w))"
    by (rule provider_destroy_flags)
  then show ?thesis
    by (subst provider_destroy_def) simp
qed

text \<open>
  \<^bold>\<open>C9.\<close> A provider that is not destroyed, on a document whose one listener is the function
  the constructor made: after \<^verbatim>\<open>destroy\<close> the listener is still registered, since
  \<^verbatim>\<open>doc.off\<close> is given a function made anew, and an update of the document runs
  \<^verbatim>\<open>handleDocUpdate\<close>, which prints that the provider is not connected.
\<close>

theorem C9_destroy_leaves_listener:
  assumes "\<not> p_destroyed (prov w)" and "onStatusChange (conn w) = Some ProviderMethod"
    and "docObservers w = [BoundHandleDocUpdate i]" and "i < nextId w"
  shows "docObservers (provider_destroy X w) = [BoundHandleDocUpdate i]
         \<and> docEmitUpdate X update OtherOrigin (provider_destroy X w)
             = does (Console ''Queuing update (not connected)'') (provider_destroy X w)"
proof -
  have obs: "docObservers (provider_destroy X w) = [BoundHandleDocUpdate i]"
    using assms by (simp add: provider_destroy_docObservers)
  have "\<not> connected (prov (provider_destroy X w))"
    using assms by (simp add: provider_destroy_flags)
  then show ?thesis
    by (simp add: obs docEmitUpdate_def runListener_def handleDocUpdate_def)
qed

theorem C9_destroy_leaves_listener_witness:
  "\<not> p_destroyed (prov (exampleProvider None None None None))
   \<and> onStatusChange (conn (exampleProvider None None None None)) = Some ProviderMethod
   \<and> docObservers (exampleProvider None None None None) = [BoundHandleDocUpdate 1]
   \<and> 1 < nextId (exampleProvider None None None None)
   \<and> docObservers (provider_destroy exampleYjs (exampleProvider None None None None))
        = [BoundHandleDocUpdate 1]
   \<and> docEmitUpdate exampleYjs [1, 2, 3] OtherOrigin
        (provider_destroy exampleYjs (exampleProvider None None None None))
        = does (Console ''Queuing update (not connected)'')
            (provider_destroy exampleYjs (exampleProvider None None None None))"
  using C9_destroy_leaves_listener
    [of "exampleProvider None None None None" 1 exampleYjs "[1, 2, 3]"]
  by (simp add: exampleProvider_fields)

section \<open>Awareness datagrams: properties\<close>

text \<open>
  The datagrams the pipeline drops or applies as the specification has it: one shorter than 8 bytes,
  one of the local client, one whose clock is not above the recorded one (0 for a client
  not seen yet), and a newer one whose state decodes.
\<close>

lemma am_handleDatagram_too_short:
  "length data < 8 \<Longrightarrow> am_handleDatagram X now aw data am = (am, [])"
  by (simp add: am_handleDatagram_def decodeAwarenessDatagram_def)

lemma am_handleDatagram_own:
  "length data \<ge> 8 \<Longrightarrow> getUint32 data 0 = clientID aw \<Longrightarrow>
     am_handleDatagram X now aw data am = (am, [])"
  by (simp add: am_handleDatagram_def decodeAwarenessDatagram_def)

lemma am_handleDatagram_old:
  "length data \<ge> 8 \<Longrightarrow> getUint32 data 4 \<le> orElse (remoteClocks am (getUint32 data 0)) 0 \<Longrightarrow>
     am_handleDatagram X now aw data am = (am, [])"
  by (simp add: am_handleDatagram_def decodeAwarenessDatagram_def Let_def)

lemma am_handleDatagram_new:
  "length data \<ge> 8 \<Longrightarrow> getUint32 data 0 \<noteq> clientID aw \<Longrightarrow>
   orElse (remoteClocks am (getUint32 data 0)) 0 < getUint32 data 4 \<Longrightarrow>
   jsonParse X (drop 8 data) = Some st \<Longrightarrow>
     am_handleDatagram X now aw data am =
       (am\<lparr>remoteClocks := (remoteClocks am)(getUint32 data 0 \<mapsto> getUint32 data 4)\<rparr>,
        [AwarenessSetRemote (getUint32 data 0) st (getUint32 data 4) now,
         AwarenessEmitChange [] [getUint32 data 0] [] ''remote-datagram''])"
  by (simp add: am_handleDatagram_def decodeAwarenessDatagram_def Let_def)

text \<open>
  \<^bold>\<open>C7.\<close> A datagram of at least 8 bytes from another client, with a clock above the recorded
  one and a state that \<^verbatim>\<open>decodeState\<close> cannot decode: the pipeline records its clock, applies
  no state and emits no change event.
\<close>

theorem C7_undecodable_state_records_clock:
  assumes "length data \<ge> 8" and "getUint32 data 0 \<noteq> clientID aw"
    and "orElse (remoteClocks am (getUint32 data 0)) 0 < getUint32 data 4"
    and "jsonParse X (drop 8 data) = None"
  shows "am_handleDatagram X now aw data am =
           (am\<lparr>remoteClocks := (remoteClocks am)(getUint32 data 0 \<mapsto> getUint32 data 4)\<rparr>, [])"
  using assms by (simp add: am_handleDatagram_def decodeAwarenessDatagram_def Let_def)

theorem C7_undecodable_state_records_clock_witness:
  "length [0, 0, 0, 2, 0, 0, 0, 5 :: byte] \<ge> 8
   \<and> getUint32 [0, 0, 0, 2, 0, 0, 0, 5] 0 \<noteq> clientID exampleAwareness
   \<and> orElse (remoteClocks (newAwarenessManager None None) (getUint32 [0, 0, 0, 2, 0, 0, 0, 5] 0)) 0
        < getUint32 [0, 0, 0, 2, 0, 0, 0, 5] 4
   \<and> jsonParse exampleYjs (drop 8 [0, 0, 0, 2, 0, 0, 0, 5]) = None
   \<and> remoteClocks (newAwarenessManager None None) 2 = None
   \<and> remoteClocks (fst (am_handleDatagram exampleYjs 0 exampleAwareness
                            [0, 0, 0, 2, 0, 0, 0, 5] (newAwarenessManager None None))) 2 = Some 5
   \<and> snd (am_handleDatagram exampleYjs 0 exampleAwareness
             [0, 0, 0, 2, 0, 0, 0, 5] (newAwarenessManager None None)) = []"
  using C7_undecodable_state_records_clock
    [of "[0, 0, 0, 2, 0, 0, 0, 5]" exampleAwareness "newAwarenessManager None None" exampleYjs 0]
  by (simp add: getUint32_def exampleAwareness_def newAwarenessManager_def orElse_def exampleYjs_def)

text \<open>After it, the same client's datagram with that clock and the state \<^verbatim>\<open>{}\<close> is dropped.\<close>

lemma recorded_clock_drops_decodable_datagram:
  "am_handleDatagram exampleYjs 0 exampleAwareness [0, 0, 0, 2, 0, 0, 0, 5, 0x7B, 0x7D]
     (fst (am_handleDatagram exampleYjs 0 exampleAwareness [0, 0, 0, 2, 0, 0, 0, 5]
             (newAwarenessManager None None)))
   = (fst (am_handleDatagram exampleYjs 0 exampleAwareness [0, 0, 0, 2, 0, 0, 0, 5]
             (newAwarenessManager None None)), [])"
  by (simp add: am_handleDatagram_def decodeAwarenessDatagram_def getUint32_def Let_def
      exampleAwareness_def newAwarenessManager_def orElse_def exampleYjs_def)

end
